theory Spec2Isabelle
  imports Complex_Main
begin

section \<open>Data model of \<^verbatim>\<open>pillumadev.py\<close>\<close>

text \<open>
  The configuration dictionary, restricted to the entries that the animation commands
  read: \<^verbatim>\<open>config["eye"]["distance"]\<close> and the width and height of each eye. The values
  are Python integers.
\<close>

record config =
  distance :: int
  left_width :: int
  left_height :: int
  right_width :: int
  right_height :: int

text \<open>The display device: the commands read \<^verbatim>\<open>device.width\<close> and \<^verbatim>\<open>device.height\<close>.\<close>

record device =
  width :: int
  height :: int

text \<open>
  The module's global variables. \<^verbatim>\<open>current_closed\<close> is \<^verbatim>\<open>None\<close> or a string. The
  gaze offsets are Python numbers: integers until \<^verbatim>\<open>look\<close> runs at speed \<^verbatim>\<open>0.5\<close>, then
  floats that are multiples of one half, on which binary floating point addition,
  subtraction and comparison are exact at the magnitudes of a screen; they are modelled
  as rationals.
\<close>

record state =
  current_bg_color :: string
  current_eye_color :: string
  current_face :: string
  current_curious :: bool
  current_closed :: "string option"
  current_offset_x :: rat
  current_offset_y :: rat
  eyelid_top_inner_left_height :: int
  eyelid_top_outer_left_height :: int
  eyelid_bottom_left_height :: int
  eyelid_top_inner_right_height :: int
  eyelid_top_outer_right_height :: int
  eyelid_bottom_right_height :: int
  current_eye_height_left :: int
  current_eye_height_right :: int

text \<open>
  The globals as the module initialises them, after \<^verbatim>\<open>draw_eyes\<close> has set the two eye
  heights to the configured heights (it does so when \<^verbatim>\<open>current_closed\<close> is \<^verbatim>\<open>None\<close>).
\<close>

definition initial_state :: "config \<Rightarrow> state" where
  "initial_state config =
     \<lparr> current_bg_color = ''black'', current_eye_color = ''white'',
       current_face = ''default'', current_curious = False, current_closed = None,
       current_offset_x = 0, current_offset_y = 0,
       eyelid_top_inner_left_height = 0, eyelid_top_outer_left_height = 0,
       eyelid_bottom_left_height = 0,
       eyelid_top_inner_right_height = 0, eyelid_top_outer_right_height = 0,
       eyelid_bottom_right_height = 0,
       current_eye_height_left = left_height config,
       current_eye_height_right = right_height config \<rparr>"

section \<open>\<^verbatim>\<open>change_face\<close>\<close>

text \<open>
  The two dictionaries of \<^verbatim>\<open>change_face\<close>, \<^verbatim>\<open>target_eyelid_heights\<close> and
  \<^verbatim>\<open>current_eyelid_positions\<close>, have the same six keys.
\<close>

record eyelids =
  top_inner_left :: int
  top_outer_left :: int
  bottom_left :: int
  top_inner_right :: int
  top_outer_right :: int
  bottom_right :: int

definition target_eyelid_heights :: "string \<Rightarrow> state \<Rightarrow> eyelids" where
  "target_eyelid_heights new_face s =
     (if new_face = ''happy'' then
        \<lparr> top_inner_left = 0, top_outer_left = 0,
          bottom_left = current_eye_height_left s div 2,
          top_inner_right = 0, top_outer_right = 0,
          bottom_right = current_eye_height_right s div 2 \<rparr>
      else if new_face = ''angry'' then
        \<lparr> top_inner_left = current_eye_height_left s div 2, top_outer_left = 0,
          bottom_left = 0,
          top_inner_right = current_eye_height_right s div 2, top_outer_right = 0,
          bottom_right = 0 \<rparr>
      else if new_face = ''tired'' then
        \<lparr> top_inner_left = 0, top_outer_left = current_eye_height_left s div 2,
          bottom_left = 0,
          top_inner_right = 0, top_outer_right = current_eye_height_right s div 2,
          bottom_right = 0 \<rparr>
      else
        \<lparr> top_inner_left = 0, top_outer_left = 0, bottom_left = 0,
          top_inner_right = 0, top_outer_right = 0, bottom_right = 0 \<rparr>)"

definition current_eyelid_positions :: "state \<Rightarrow> eyelids" where
  "current_eyelid_positions s =
     \<lparr> top_inner_left = eyelid_top_inner_left_height s,
       top_outer_left = eyelid_top_outer_left_height s,
       bottom_left = eyelid_bottom_left_height s,
       top_inner_right = eyelid_top_inner_right_height s,
       top_outer_right = eyelid_top_outer_right_height s,
       bottom_right = eyelid_bottom_right_height s \<rparr>"

text \<open>The loop's guard: some key's position differs from its target.\<close>

definition any_differs :: "eyelids \<Rightarrow> eyelids \<Rightarrow> bool" where
  "any_differs cur tgt \<longleftrightarrow>
     top_inner_left cur \<noteq> top_inner_left tgt \<or> top_outer_left cur \<noteq> top_outer_left tgt \<or>
     bottom_left cur \<noteq> bottom_left tgt \<or> top_inner_right cur \<noteq> top_inner_right tgt \<or>
     top_outer_right cur \<noteq> top_outer_right tgt \<or> bottom_right cur \<noteq> bottom_right tgt"

text \<open>One key of one pass of the inner \<^verbatim>\<open>for\<close> loop, with \<^verbatim>\<open>adjustment_speed = 2\<close>.\<close>

definition adjust_key :: "int \<Rightarrow> int \<Rightarrow> int" where
  "adjust_key cur tgt =
     (if cur < tgt then min (cur + 2) tgt
      else if cur > tgt then max (cur - 2) tgt
      else cur)"

definition adjust_eyelids :: "eyelids \<Rightarrow> eyelids \<Rightarrow> eyelids" where
  "adjust_eyelids cur tgt =
     \<lparr> top_inner_left = adjust_key (top_inner_left cur) (top_inner_left tgt),
       top_outer_left = adjust_key (top_outer_left cur) (top_outer_left tgt),
       bottom_left = adjust_key (bottom_left cur) (bottom_left tgt),
       top_inner_right = adjust_key (top_inner_right cur) (top_inner_right tgt),
       top_outer_right = adjust_key (top_outer_right cur) (top_outer_right tgt),
       bottom_right = adjust_key (bottom_right cur) (bottom_right tgt) \<rparr>"

definition key_gap :: "int \<Rightarrow> int \<Rightarrow> nat" where
  "key_gap cur tgt = nat \<bar>cur - tgt\<bar>"

definition eyelid_gap :: "eyelids \<Rightarrow> eyelids \<Rightarrow> nat" where
  "eyelid_gap cur tgt =
     key_gap (top_inner_left cur) (top_inner_left tgt) +
     key_gap (top_outer_left cur) (top_outer_left tgt) +
     key_gap (bottom_left cur) (bottom_left tgt) +
     key_gap (top_inner_right cur) (top_inner_right tgt) +
     key_gap (top_outer_right cur) (top_outer_right tgt) +
     key_gap (bottom_right cur) (bottom_right tgt)"

text \<open>
  The \<^verbatim>\<open>while any(...)\<close> loop on the dictionary of positions. Each pass moves every key
  that differs from its target, so the sum of the six distances decreases and the loop
  ends.
\<close>

function change_face_loop :: "eyelids \<Rightarrow> eyelids \<Rightarrow> eyelids" where
  "change_face_loop tgt cur =
     (if any_differs cur tgt then change_face_loop tgt (adjust_eyelids cur tgt) else cur)"
  by pat_completeness auto
termination
proof (relation "measure (\<lambda>(tgt, cur). eyelid_gap cur tgt)")
  show "wf (measure (\<lambda>(tgt, cur). eyelid_gap cur tgt))"
    by simp
next
  fix tgt cur :: eyelids
  assume differs: "any_differs cur tgt"
  have le: "key_gap (adjust_key c t) t \<le> key_gap c t" for c t
    unfolding key_gap_def adjust_key_def by (cases "c < t"; cases "t < c") simp_all
  have less: "key_gap (adjust_key c t) t < key_gap c t" if "c \<noteq> t" for c t
    using that unfolding key_gap_def adjust_key_def by (cases "c < t"; cases "t < c") simp_all
  have six: "a' + b' + c' + d' + e' + f' < a + b + c + d + e + f"
    if "a' \<le> a" "b' \<le> b" "c' \<le> c" "d' \<le> d" "e' \<le> e" "f' \<le> f"
      and "a' < a \<or> b' < b \<or> c' < c \<or> d' < d \<or> e' < e \<or> f' < f"
    for a b c d e f a' b' c' d' e' f' :: nat
    using that by linarith
  have strict:
    "key_gap (adjust_key (top_inner_left cur) (top_inner_left tgt)) (top_inner_left tgt)
       < key_gap (top_inner_left cur) (top_inner_left tgt) \<or>
     key_gap (adjust_key (top_outer_left cur) (top_outer_left tgt)) (top_outer_left tgt)
       < key_gap (top_outer_left cur) (top_outer_left tgt) \<or>
     key_gap (adjust_key (bottom_left cur) (bottom_left tgt)) (bottom_left tgt)
       < key_gap (bottom_left cur) (bottom_left tgt) \<or>
     key_gap (adjust_key (top_inner_right cur) (top_inner_right tgt)) (top_inner_right tgt)
       < key_gap (top_inner_right cur) (top_inner_right tgt) \<or>
     key_gap (adjust_key (top_outer_right cur) (top_outer_right tgt)) (top_outer_right tgt)
       < key_gap (top_outer_right cur) (top_outer_right tgt) \<or>
     key_gap (adjust_key (bottom_right cur) (bottom_right tgt)) (bottom_right tgt)
       < key_gap (bottom_right cur) (bottom_right tgt)"
    using differs less unfolding any_differs_def by blast
  have "eyelid_gap (adjust_eyelids cur tgt) tgt < eyelid_gap cur tgt"
    unfolding eyelid_gap_def adjust_eyelids_def eyelids.select_convs
    by (rule six [OF le le le le le le strict])
  then show "((tgt, adjust_eyelids cur tgt), (tgt, cur)) \<in> measure (\<lambda>(tgt, cur). eyelid_gap cur tgt)"
    by simp
qed

declare change_face_loop.simps [simp del]

text \<open>
  \<^verbatim>\<open>change_face(device, config, new_face)\<close>. Every pass of the loop copies the dictionary
  into the six globals; when the loop makes no pass the globals already hold those
  values. The \<^verbatim>\<open>time.sleep\<close> of each pass has no effect on the state.
\<close>

definition change_face :: "device \<Rightarrow> config \<Rightarrow> string option \<Rightarrow> state \<Rightarrow> state" where
  "change_face device config new_face_arg s =
     (let new_face = (case new_face_arg of None \<Rightarrow> current_face s | Some f \<Rightarrow> f);
          s1 = s\<lparr>current_face := new_face\<rparr>;
          target = target_eyelid_heights new_face s1;
          final = change_face_loop target (current_eyelid_positions s1)
      in s1\<lparr> eyelid_top_inner_left_height := top_inner_left final,
              eyelid_top_outer_left_height := top_outer_left final,
              eyelid_bottom_left_height := bottom_left final,
              eyelid_top_inner_right_height := top_inner_right final,
              eyelid_top_outer_right_height := top_outer_right final,
              eyelid_bottom_right_height := bottom_right final \<rparr>)"

section \<open>\<^verbatim>\<open>curious_mode\<close> and \<^verbatim>\<open>get_constraints\<close>\<close>

definition curious_mode :: "device \<Rightarrow> config \<Rightarrow> state \<Rightarrow> state" where
  "curious_mode device config s = s\<lparr>current_curious := True\<rparr>"

text \<open>Python's \<^verbatim>\<open>int(x)\<close> on a number: truncation towards zero.\<close>

definition py_int :: "rat \<Rightarrow> int" where
  "py_int x = (if 0 \<le> x then \<lfloor>x\<rfloor> else \<lceil>x\<rceil>)"

text \<open>
  \<^verbatim>\<open>int(v * (1 + max_increase))\<close> with \<^verbatim>\<open>max_increase = 0.2\<close>. Python computes the
  product in binary floating point; the model computes it exactly, which gives the same
  integer for every size \<open>v\<close> from 0 to a million: \<^verbatim>\<open>1 + 0.2\<close> is the float next below
  1.2, the float product is within \<open>10\<^sup>-\<^sup>9\<close> of the exact one, an exact product that is
  not an integer is at least one fifth away from the integers around it, and an exact
  product that is an integer (\<open>v\<close> a multiple of 5) is the float nearest to the product
  by the float next below 1.2.
\<close>

definition curious_size :: "int \<Rightarrow> int" where
  "curious_size v = py_int (of_int v * (1 + 2 / 10))"

definition get_constraints :: "config \<Rightarrow> device \<Rightarrow> state \<Rightarrow> int \<times> int \<times> int \<times> int" where
  "get_constraints config device s =
     (let eye_width_left = (if current_curious s then curious_size (left_width config)
                            else left_width config);
          eye_width_right = (if current_curious s then curious_size (right_width config)
                             else right_width config);
          eye_height_left = (if current_curious s then curious_size (left_height config)
                             else left_height config);
          eye_height_right = (if current_curious s then curious_size (right_height config)
                              else right_height config);
          min_x_offset = - (width device div 2 - eye_width_left - distance config div 2);
          max_x_offset = width device div 2 - eye_width_right - distance config div 2;
          min_y_offset = - (height device div 2 - eye_height_left div 2);
          max_y_offset = height device div 2 - eye_height_right div 2
      in (min_x_offset, max_x_offset, min_y_offset, max_y_offset))"

section \<open>\<^verbatim>\<open>look\<close>\<close>

text \<open>\<^verbatim>\<open>speed_map.get(speed, 2)\<close>.\<close>

definition speed_map :: "string \<Rightarrow> rat" where
  "speed_map speed =
     (if speed = ''slow'' then 1 / 2 else if speed = ''medium'' then 1
      else if speed = ''fast'' then 2 else 2)"

definition target_offset :: "int \<times> int \<times> int \<times> int \<Rightarrow> string \<Rightarrow> int \<times> int" where
  "target_offset c direction =
     (case c of (min_x_offset, max_x_offset, min_y_offset, max_y_offset) \<Rightarrow>
        if direction = ''L'' then (min_x_offset, 0)
        else if direction = ''R'' then (max_x_offset, 0)
        else if direction = ''T'' then (0, min_y_offset)
        else if direction = ''B'' then (0, max_y_offset)
        else if direction = ''TL'' then (min_x_offset, min_y_offset)
        else if direction = ''TR'' then (max_x_offset, min_y_offset)
        else if direction = ''BL'' then (min_x_offset, max_y_offset)
        else if direction = ''BR'' then (max_x_offset, max_y_offset)
        else (0, 0))"

text \<open>One axis of one pass of the loop of \<^verbatim>\<open>look\<close>.\<close>

definition adjust_offset :: "rat \<Rightarrow> rat \<Rightarrow> rat \<Rightarrow> rat" where
  "adjust_offset adjustment_speed cur tgt =
     (if cur < tgt then min (cur + adjustment_speed) tgt
      else if cur > tgt then max (cur - adjustment_speed) tgt
      else cur)"

definition look_body :: "rat \<Rightarrow> rat \<Rightarrow> rat \<Rightarrow> state \<Rightarrow> state" where
  "look_body adjustment_speed target_offset_x target_offset_y s =
     s\<lparr> current_offset_x := adjust_offset adjustment_speed (current_offset_x s) target_offset_x,
        current_offset_y := adjust_offset adjustment_speed (current_offset_y s) target_offset_y \<rparr>"

text \<open>
  The \<^verbatim>\<open>while\<close> loop of \<^verbatim>\<open>look\<close>; \<open>None\<close> stands for a loop that never ends. The
  dictionary \<^verbatim>\<open>current_offsets\<close> and the two globals hold the same values at the head of
  every pass.
\<close>

partial_function (option) look_loop :: "rat \<Rightarrow> rat \<Rightarrow> rat \<Rightarrow> state \<Rightarrow> state option" where
  "look_loop adjustment_speed target_offset_x target_offset_y s =
     (if current_offset_x s \<noteq> target_offset_x \<or> current_offset_y s \<noteq> target_offset_y
      then look_loop adjustment_speed target_offset_x target_offset_y
             (look_body adjustment_speed target_offset_x target_offset_y s)
      else Some s)"

declare look_loop.simps [code]

definition look :: "device \<Rightarrow> config \<Rightarrow> string \<Rightarrow> string \<Rightarrow> state \<Rightarrow> state option" where
  "look device config direction speed s =
     (case target_offset (get_constraints config device s) direction of
        (target_offset_x, target_offset_y) \<Rightarrow>
          look_loop (speed_map speed) (of_int target_offset_x) (of_int target_offset_y) s)"

section \<open>\<^verbatim>\<open>close_eyes\<close>, \<^verbatim>\<open>open_eyes\<close> and \<^verbatim>\<open>blink_eyes\<close>\<close>

text \<open>\<^verbatim>\<open>{"fast": 4, "medium": 2, "slow": 1}.get(speed, 4)\<close>.\<close>

definition movement_speed :: "string \<Rightarrow> int" where
  "movement_speed speed =
     (if speed = ''fast'' then 4 else if speed = ''medium'' then 2
      else if speed = ''slow'' then 1 else 4)"

text \<open>
  The argument \<^verbatim>\<open>eye\<close> is \<^verbatim>\<open>None\<close> (its default) or a string. The two membership tests
  \<^verbatim>\<open>eye in ["both", "left"]\<close> and \<^verbatim>\<open>eye in ["both", "right"]\<close>:
\<close>

definition in_both_left :: "string option \<Rightarrow> bool" where
  "in_both_left eye \<longleftrightarrow> eye = Some ''both'' \<or> eye = Some ''left''"

definition in_both_right :: "string option \<Rightarrow> bool" where
  "in_both_right eye \<longleftrightarrow> eye = Some ''both'' \<or> eye = Some ''right''"

text \<open>
  One pass of the \<^verbatim>\<open>while True\<close> loop of \<^verbatim>\<open>close_eyes\<close>: the state after the pass, and
  whether the pass ended in \<^verbatim>\<open>break\<close>.
\<close>

definition close_eyes_body :: "string option \<Rightarrow> int \<Rightarrow> state \<Rightarrow> bool \<times> state" where
  "close_eyes_body eye speed s =
     (let s1 = (if in_both_left eye
                then s\<lparr>current_eye_height_left := max 2 (current_eye_height_left s - speed)\<rparr>
                else s);
          s2 = (if in_both_right eye
                then s1\<lparr>current_eye_height_right := max 2 (current_eye_height_right s1 - speed)\<rparr>
                else s1)
      in if (current_eye_height_left s2 \<le> 2 \<and> in_both_left eye) \<and>
            (current_eye_height_right s2 \<le> 2 \<and> in_both_right eye)
         then (True, s2\<lparr>current_closed := Some ''both''\<rparr>)
         else if current_eye_height_left s2 \<le> 2 \<and> eye = Some ''left''
         then (True, s2\<lparr>current_closed := Some ''left''\<rparr>)
         else if current_eye_height_right s2 \<le> 2 \<and> eye = Some ''right''
         then (True, s2\<lparr>current_closed := Some ''right''\<rparr>)
         else (False, s2))"

partial_function (option) close_eyes_loop :: "string option \<Rightarrow> int \<Rightarrow> state \<Rightarrow> state option" where
  "close_eyes_loop eye speed s =
     (if fst (close_eyes_body eye speed s) then Some (snd (close_eyes_body eye speed s))
      else close_eyes_loop eye speed (snd (close_eyes_body eye speed s)))"

declare close_eyes_loop.simps [code]

text \<open>
  \<^verbatim>\<open>close_eyes(device, config, eye, speed)\<close>. The two heights are integers, never
  \<^verbatim>\<open>None\<close>, so the two \<^verbatim>\<open>is None\<close> tests at the head of the function do nothing.
\<close>

definition close_eyes :: "device \<Rightarrow> config \<Rightarrow> string option \<Rightarrow> string \<Rightarrow> state \<Rightarrow> state option" where
  "close_eyes device config eye speed s = close_eyes_loop eye (movement_speed speed) s"

text \<open>One pass of the \<^verbatim>\<open>while True\<close> loop of \<^verbatim>\<open>open_eyes\<close>.\<close>

definition open_eyes_body :: "int \<Rightarrow> int \<Rightarrow> string option \<Rightarrow> int \<Rightarrow> state \<Rightarrow> bool \<times> state" where
  "open_eyes_body left_eye_height_orig right_eye_height_orig eye speed s =
     (let s1 = (if in_both_left eye
                then s\<lparr>current_eye_height_left :=
                        min left_eye_height_orig (current_eye_height_left s + speed)\<rparr>
                else s);
          s2 = (if in_both_right eye
                then s1\<lparr>current_eye_height_right :=
                         min right_eye_height_orig (current_eye_height_right s1 + speed)\<rparr>
                else s1)
      in if (current_eye_height_left s2 \<ge> left_eye_height_orig \<and> in_both_left eye) \<and>
            (current_eye_height_right s2 \<ge> right_eye_height_orig \<and> in_both_right eye)
         then (True, s2\<lparr>current_closed := None\<rparr>)
         else if current_eye_height_left s2 \<ge> left_eye_height_orig \<and> in_both_left eye
         then (True, s2\<lparr>current_closed :=
                 (if current_closed s2 = Some ''both'' then Some ''right'' else None)\<rparr>)
         else if current_eye_height_right s2 \<ge> right_eye_height_orig \<and> in_both_right eye
         then (True, s2\<lparr>current_closed :=
                 (if current_closed s2 = Some ''both'' then Some ''left'' else None)\<rparr>)
         else (False, s2))"

partial_function (option) open_eyes_loop ::
  "int \<Rightarrow> int \<Rightarrow> string option \<Rightarrow> int \<Rightarrow> state \<Rightarrow> state option" where
  "open_eyes_loop left_eye_height_orig right_eye_height_orig eye speed s =
     (if fst (open_eyes_body left_eye_height_orig right_eye_height_orig eye speed s)
      then Some (snd (open_eyes_body left_eye_height_orig right_eye_height_orig eye speed s))
      else open_eyes_loop left_eye_height_orig right_eye_height_orig eye speed
             (snd (open_eyes_body left_eye_height_orig right_eye_height_orig eye speed s)))"

declare open_eyes_loop.simps [code]

text \<open>Python's \<^verbatim>\<open>not current_closed\<close>: true of \<^verbatim>\<open>None\<close> and of the empty string.\<close>

definition not_closed :: "string option \<Rightarrow> bool" where
  "not_closed c \<longleftrightarrow> c = None \<or> c = Some []"

definition open_eyes :: "device \<Rightarrow> config \<Rightarrow> string option \<Rightarrow> string \<Rightarrow> state \<Rightarrow> state option" where
  "open_eyes device config eye speed s =
     (if not_closed (current_closed s) then Some s
      else if current_closed s = Some ''both'' then
        open_eyes_loop (left_height config) (right_height config) eye (movement_speed speed)
          (s\<lparr>current_eye_height_left := 2, current_eye_height_right := 2\<rparr>)
      else if current_closed s = Some ''left'' then
        open_eyes_loop (left_height config) (right_height config) eye (movement_speed speed)
          (s\<lparr>current_eye_height_left := 2, current_eye_height_right := right_height config\<rparr>)
      else if current_closed s = Some ''right'' then
        open_eyes_loop (left_height config) (right_height config) eye (movement_speed speed)
          (s\<lparr>current_eye_height_left := left_height config, current_eye_height_right := 2\<rparr>)
      else Some s)"

definition blink_eyes :: "device \<Rightarrow> config \<Rightarrow> string option \<Rightarrow> string \<Rightarrow> state \<Rightarrow> state option" where
  "blink_eyes device config eye speed s =
     (case close_eyes device config eye speed s of
        None \<Rightarrow> None
      | Some s' \<Rightarrow> open_eyes device config eye speed s')"

section \<open>Sequences of commands\<close>

datatype command =
    Change_face "string option"
  | Curious_mode
  | Look string string
  | Close_eyes "string option" string
  | Open_eyes "string option" string
  | Blink_eyes "string option" string

text \<open>
  A command returns the new state, or \<open>None\<close> when its loop never ends. A sequence
  of commands is run one call after the other, as \<^verbatim>\<open>main\<close> does; the states it reaches
  are the states between two calls.
\<close>

fun exec :: "device \<Rightarrow> config \<Rightarrow> command \<Rightarrow> state \<Rightarrow> state option" where
  "exec device config (Change_face new_face) s = Some (change_face device config new_face s)"
| "exec device config Curious_mode s = Some (curious_mode device config s)"
| "exec device config (Look direction speed) s = look device config direction speed s"
| "exec device config (Close_eyes eye speed) s = close_eyes device config eye speed s"
| "exec device config (Open_eyes eye speed) s = open_eyes device config eye speed s"
| "exec device config (Blink_eyes eye speed) s = blink_eyes device config eye speed s"

fun run :: "device \<Rightarrow> config \<Rightarrow> command list \<Rightarrow> state \<Rightarrow> state option" where
  "run device config [] s = Some s"
| "run device config (c # cs) s =
     (case exec device config c s of
        None \<Rightarrow> None
      | Some s' \<Rightarrow> run device config cs s')"

section \<open>The concrete scenario\<close>

text \<open>
  A 128 by 64 display, and the default eye configuration of the module
  (\<^verbatim>\<open>DEFAULT_RENDER_CONFIG\<close>): 32 by 32 eyes, distance 10.
\<close>

definition scenario_device :: device where
  "scenario_device = \<lparr> width = 128, height = 64 \<rparr>"

definition default_config :: config where
  "default_config =
     \<lparr> distance = 10, left_width = 32, left_height = 32, right_width = 32, right_height = 32 \<rparr>"

text \<open>
  The same configuration with a taller right eye, with a taller left eye, and one with
  a wide left eye beside a narrow right one.
\<close>

definition unequal_config :: config where
  "unequal_config =
     \<lparr> distance = 10, left_width = 32, left_height = 32, right_width = 32, right_height = 40 \<rparr>"

definition taller_left_config :: config where
  "taller_left_config =
     \<lparr> distance = 10, left_width = 32, left_height = 40, right_width = 32, right_height = 32 \<rparr>"

definition wide_left_config :: config where
  "wide_left_config =
     \<lparr> distance = 10, left_width = 62, left_height = 30, right_width = 20, right_height = 30 \<rparr>"

section \<open>The properties that the specification states\<close>

text \<open>
  The constraints as the specification words them: the two formulas it gives for X, and
  for Y ``the analogous formulas'', read as the same formulas with the screen's and the
  eyes' heights in the place of the widths. The sizes are inflated by 20 percent when
  \<^verbatim>\<open>curious\<close> is set.
\<close>

definition computeConstraints_spec :: "config \<Rightarrow> device \<Rightarrow> state \<Rightarrow> int \<times> int \<times> int \<times> int" where
  "computeConstraints_spec config device s =
     (let eyeWidthLeft = (if current_curious s then curious_size (left_width config)
                          else left_width config);
          eyeWidthRight = (if current_curious s then curious_size (right_width config)
                           else right_width config);
          eyeHeightLeft = (if current_curious s then curious_size (left_height config)
                           else left_height config);
          eyeHeightRight = (if current_curious s then curious_size (right_height config)
                            else right_height config);
          halfWidth = width device div 2;
          halfHeight = height device div 2
      in (- (halfWidth - eyeWidthLeft - distance config div 2),
          halfWidth - eyeWidthRight - distance config div 2,
          - (halfHeight - eyeHeightLeft - distance config div 2),
          halfHeight - eyeHeightRight - distance config div 2))"

text \<open>
  ``Each of the six eyelid heights is at most half of the current height of the eye it
  masks'', and the same with the configured base height of the eye.
\<close>

definition eyelids_at_most_half_eye :: "state \<Rightarrow> bool" where
  "eyelids_at_most_half_eye s \<longleftrightarrow>
     2 * eyelid_top_inner_left_height s \<le> current_eye_height_left s \<and>
     2 * eyelid_top_outer_left_height s \<le> current_eye_height_left s \<and>
     2 * eyelid_bottom_left_height s \<le> current_eye_height_left s \<and>
     2 * eyelid_top_inner_right_height s \<le> current_eye_height_right s \<and>
     2 * eyelid_top_outer_right_height s \<le> current_eye_height_right s \<and>
     2 * eyelid_bottom_right_height s \<le> current_eye_height_right s"

definition eyelids_at_most_half_base :: "config \<Rightarrow> state \<Rightarrow> bool" where
  "eyelids_at_most_half_base config s \<longleftrightarrow>
     2 * eyelid_top_inner_left_height s \<le> left_height config \<and>
     2 * eyelid_top_outer_left_height s \<le> left_height config \<and>
     2 * eyelid_bottom_left_height s \<le> left_height config \<and>
     2 * eyelid_top_inner_right_height s \<le> right_height config \<and>
     2 * eyelid_top_outer_right_height s \<le> right_height config \<and>
     2 * eyelid_bottom_right_height s \<le> right_height config"

text \<open>
  ``\<^verbatim>\<open>closedState\<close> is consistent with the eye heights'': both closed, both heights at
  the minimum 2; one eye closed, its height at 2 and the other's at its base; none
  closed, both heights at their bases.
\<close>

definition closed_consistent :: "config \<Rightarrow> state \<Rightarrow> bool" where
  "closed_consistent config s \<longleftrightarrow>
     (current_closed s = Some ''both'' \<longrightarrow>
        current_eye_height_left s = 2 \<and> current_eye_height_right s = 2) \<and>
     (current_closed s = Some ''left'' \<longrightarrow>
        current_eye_height_left s = 2 \<and> current_eye_height_right s = right_height config) \<and>
     (current_closed s = Some ''right'' \<longrightarrow>
        current_eye_height_right s = 2 \<and> current_eye_height_left s = left_height config) \<and>
     (current_closed s = None \<longrightarrow>
        current_eye_height_left s = left_height config \<and>
        current_eye_height_right s = right_height config)"

text \<open>The part of it about both eyes.\<close>

definition both_closed_at_minimum :: "state \<Rightarrow> bool" where
  "both_closed_at_minimum s \<longleftrightarrow>
     (current_closed s = Some ''both'' \<longrightarrow>
        current_eye_height_left s = 2 \<and> current_eye_height_right s = 2)"

text \<open>
  An invariant of the commands, for base heights \<open>lo\<close> and \<open>ro\<close> of at least 2: each
  eye height lies between 2 and its base, and each eyelid height between 0 and half the
  base height of its eye.
\<close>

definition in_range :: "int \<Rightarrow> int \<Rightarrow> state \<Rightarrow> bool" where
  "in_range lo ro s \<longleftrightarrow>
     2 \<le> current_eye_height_left s \<and> current_eye_height_left s \<le> lo \<and>
     2 \<le> current_eye_height_right s \<and> current_eye_height_right s \<le> ro \<and>
     0 \<le> eyelid_top_inner_left_height s \<and> 2 * eyelid_top_inner_left_height s \<le> lo \<and>
     0 \<le> eyelid_top_outer_left_height s \<and> 2 * eyelid_top_outer_left_height s \<le> lo \<and>
     0 \<le> eyelid_bottom_left_height s \<and> 2 * eyelid_bottom_left_height s \<le> lo \<and>
     0 \<le> eyelid_top_inner_right_height s \<and> 2 * eyelid_top_inner_right_height s \<le> ro \<and>
     0 \<le> eyelid_top_outer_right_height s \<and> 2 * eyelid_top_outer_right_height s \<le> ro \<and>
     0 \<le> eyelid_bottom_right_height s \<and> 2 * eyelid_bottom_right_height s \<le> ro"

section \<open>The loops end, and where\<close>

subsection \<open>\<^verbatim>\<open>change_face\<close>\<close>

lemma not_any_differs_eq: "\<not> any_differs cur tgt \<Longrightarrow> cur = tgt"
  by (simp add: any_differs_def eyelids.equality)

lemma change_face_loop_target: "change_face_loop tgt cur = tgt"
proof (induction tgt cur rule: change_face_loop.induct)
  case (1 tgt cur)
  show ?case
  proof (cases "any_differs cur tgt")
    case True
    with 1 show ?thesis by (simp add: change_face_loop.simps [of tgt cur])
  next
    case False
    then show ?thesis by (simp add: change_face_loop.simps [of tgt cur] not_any_differs_eq)
  qed
qed

lemma change_face_eyelids:
  "current_eyelid_positions (change_face device config new_face s) =
   target_eyelid_heights (case new_face of None \<Rightarrow> current_face s | Some f \<Rightarrow> f) s"
  by (simp add: change_face_def Let_def change_face_loop_target current_eyelid_positions_def
      target_eyelid_heights_def)

subsection \<open>\<^verbatim>\<open>look\<close>\<close>

lemma adjust_offset_closer:
  assumes "0 < sp" "0 \<le> k" "\<bar>tgt - cur\<bar> \<le> k + sp"
  shows "\<bar>tgt - adjust_offset sp cur tgt\<bar> \<le> k"
  using assms unfolding adjust_offset_def min_def max_def by (auto simp: abs_if split: if_splits)

lemma adjust_offset_within:
  assumes "0 < sp" "\<bar>tgt - cur\<bar> \<le> of_nat (Suc n) * sp"
  shows "\<bar>tgt - adjust_offset sp cur tgt\<bar> \<le> of_nat n * sp"
proof -
  have "of_nat (Suc n) * sp = of_nat n * sp + sp" by (simp add: algebra_simps)
  with assms have b: "\<bar>tgt - cur\<bar> \<le> of_nat n * sp + sp" by simp
  have nn: "0 \<le> of_nat n * sp" using assms(1) by simp
  show ?thesis by (rule adjust_offset_closer [OF assms(1) nn b])
qed

text \<open>With both distances at most \<open>n\<close> steps, the loop ends, at the target.\<close>

lemma look_loop_within:
  "0 < sp \<Longrightarrow> \<bar>tx - current_offset_x s\<bar> \<le> of_nat n * sp \<Longrightarrow>
   \<bar>ty - current_offset_y s\<bar> \<le> of_nat n * sp \<Longrightarrow>
   look_loop sp tx ty s = Some (s\<lparr>current_offset_x := tx, current_offset_y := ty\<rparr>)"
proof (induction n arbitrary: s)
  case 0
  then have "current_offset_x s = tx" "current_offset_y s = ty" by simp_all
  then show ?case by (subst look_loop.simps) auto
next
  case (Suc n)
  show ?case
  proof (cases "current_offset_x s \<noteq> tx \<or> current_offset_y s \<noteq> ty")
    case False
    then show ?thesis by (subst look_loop.simps) auto
  next
    case True
    let ?s' = "look_body sp tx ty s"
    have x: "\<bar>tx - current_offset_x ?s'\<bar> \<le> of_nat n * sp"
      using adjust_offset_within [OF Suc.prems(1) Suc.prems(2)] by (simp add: look_body_def)
    have y: "\<bar>ty - current_offset_y ?s'\<bar> \<le> of_nat n * sp"
      using adjust_offset_within [OF Suc.prems(1) Suc.prems(3)] by (simp add: look_body_def)
    have "look_loop sp tx ty s = look_loop sp tx ty ?s'"
      using True by (subst look_loop.simps) simp
    also have "\<dots> = Some (?s'\<lparr>current_offset_x := tx, current_offset_y := ty\<rparr>)"
      by (rule Suc.IH [OF Suc.prems(1) x y])
    also have "?s'\<lparr>current_offset_x := tx, current_offset_y := ty\<rparr> =
               s\<lparr>current_offset_x := tx, current_offset_y := ty\<rparr>"
      by (simp add: look_body_def)
    finally show ?thesis .
  qed
qed

lemma look_loop_reaches:
  assumes "0 < sp"
  shows "look_loop sp tx ty s = Some (s\<lparr>current_offset_x := tx, current_offset_y := ty\<rparr>)"
proof -
  obtain n1 :: nat where n1: "\<bar>tx - current_offset_x s\<bar> < of_nat n1 * sp"
    using ex_less_of_nat_mult [OF assms] by blast
  obtain n2 :: nat where n2: "\<bar>ty - current_offset_y s\<bar> < of_nat n2 * sp"
    using ex_less_of_nat_mult [OF assms] by blast
  let ?n = "max n1 n2"
  have "of_nat n1 * sp \<le> of_nat ?n * sp" "of_nat n2 * sp \<le> of_nat ?n * sp"
    using assms by simp_all
  with n1 n2 have a: "\<bar>tx - current_offset_x s\<bar> \<le> of_nat ?n * sp"
    and b: "\<bar>ty - current_offset_y s\<bar> \<le> of_nat ?n * sp"
    by linarith+
  show ?thesis by (rule look_loop_within [OF assms a b])
qed

lemma speed_map_pos: "0 < speed_map speed"
  by (simp add: speed_map_def)

lemma scenario_constraints:
  "\<not> current_curious s \<Longrightarrow> get_constraints default_config scenario_device s = (- 27, 27, - 16, 16)"
  by (simp add: get_constraints_def default_config_def scenario_device_def)

subsection \<open>\<^verbatim>\<open>close_eyes\<close>\<close>

lemma movement_speed_pos: "0 < movement_speed speed"
  by (simp add: movement_speed_def)

lemma close_eyes_loop_left:
  assumes "0 < sp"
  shows "close_eyes_loop (Some ''left'') sp s =
    Some (s\<lparr>current_eye_height_left := 2, current_closed := Some ''left''\<rparr>)"
proof (induction "nat (current_eye_height_left s - 2)" arbitrary: s rule: less_induct)
  case less
  let ?s' = "s\<lparr>current_eye_height_left := current_eye_height_left s - sp\<rparr>"
  show ?case
  proof (cases "current_eye_height_left s - sp \<le> 2")
    case True
    then show ?thesis
      by (subst close_eyes_loop.simps)
         (simp add: close_eyes_body_def in_both_left_def in_both_right_def max_def)
  next
    case False
    then have body: "close_eyes_body (Some ''left'') sp s = (False, ?s')"
      by (simp add: close_eyes_body_def in_both_left_def in_both_right_def max_def)
    have "nat (current_eye_height_left ?s' - 2) < nat (current_eye_height_left s - 2)"
      using False assms by simp
    from less [OF this] show ?thesis
      by (subst close_eyes_loop.simps) (simp add: body)
  qed
qed

lemma close_eyes_loop_right:
  assumes "0 < sp"
  shows "close_eyes_loop (Some ''right'') sp s =
    Some (s\<lparr>current_eye_height_right := 2, current_closed := Some ''right''\<rparr>)"
proof (induction "nat (current_eye_height_right s - 2)" arbitrary: s rule: less_induct)
  case less
  let ?s' = "s\<lparr>current_eye_height_right := current_eye_height_right s - sp\<rparr>"
  show ?case
  proof (cases "current_eye_height_right s - sp \<le> 2")
    case True
    then show ?thesis
      by (subst close_eyes_loop.simps)
         (simp add: close_eyes_body_def in_both_left_def in_both_right_def max_def)
  next
    case False
    then have body: "close_eyes_body (Some ''right'') sp s = (False, ?s')"
      by (simp add: close_eyes_body_def in_both_left_def in_both_right_def max_def)
    have "nat (current_eye_height_right ?s' - 2) < nat (current_eye_height_right s - 2)"
      using False assms by simp
    from less [OF this] show ?thesis
      by (subst close_eyes_loop.simps) (simp add: body)
  qed
qed

lemma close_eyes_loop_both:
  assumes "0 < sp"
  shows "close_eyes_loop (Some ''both'') sp s =
    Some (s\<lparr>current_eye_height_left := 2, current_eye_height_right := 2,
            current_closed := Some ''both''\<rparr>)"
proof (induction "nat (max (current_eye_height_left s) (current_eye_height_right s) - 2)"
    arbitrary: s rule: less_induct)
  case less
  let ?s' = "s\<lparr>current_eye_height_left := max 2 (current_eye_height_left s - sp),
               current_eye_height_right := max 2 (current_eye_height_right s - sp)\<rparr>"
  show ?case
  proof (cases "current_eye_height_left s - sp \<le> 2 \<and> current_eye_height_right s - sp \<le> 2")
    case True
    then show ?thesis
      by (subst close_eyes_loop.simps)
         (simp add: close_eyes_body_def in_both_left_def in_both_right_def max_def Let_def)
  next
    case False
    then have body: "close_eyes_body (Some ''both'') sp s = (False, ?s')"
      by (auto simp add: close_eyes_body_def in_both_left_def in_both_right_def max_def Let_def)
    have "nat (max (current_eye_height_left ?s') (current_eye_height_right ?s') - 2)
        < nat (max (current_eye_height_left s) (current_eye_height_right s) - 2)"
      using False assms by (auto simp: max_def)
    from less [OF this] show ?thesis
      by (subst close_eyes_loop.simps) (simp add: body)
  qed
qed

lemma close_eyes_body_other:
  assumes "\<not> in_both_left eye" "\<not> in_both_right eye"
  shows "close_eyes_body eye sp s = (False, s)"
  using assms by (auto simp add: close_eyes_body_def in_both_left_def in_both_right_def)

lemma close_eyes_loop_other:
  assumes "\<not> in_both_left eye" "\<not> in_both_right eye"
  shows "close_eyes_loop eye sp s = None"
proof (cases "close_eyes_loop eye sp s")
  case None
  then show ?thesis .
next
  case (Some y)
  have "in_both_left eye \<or> in_both_right eye"
  proof (rule close_eyes_loop.raw_induct
      [where P = "\<lambda>eye sp s y. in_both_left eye \<or> in_both_right eye", OF _ Some])
    fix loop :: "string option \<Rightarrow> int \<Rightarrow> state \<Rightarrow> state option" and eye sp s y
    assume IH: "\<And>eye sp s y. loop eye sp s = Some y \<Longrightarrow> in_both_left eye \<or> in_both_right eye"
      and eq: "(if fst (close_eyes_body eye sp s) then Some (snd (close_eyes_body eye sp s))
                else loop eye sp (snd (close_eyes_body eye sp s))) = Some y"
    show "in_both_left eye \<or> in_both_right eye"
    proof (rule ccontr)
      assume "\<not> (in_both_left eye \<or> in_both_right eye)"
      then have "close_eyes_body eye sp s = (False, s)"
        by (simp add: close_eyes_body_other)
      with eq have "loop eye sp s = Some y" by simp
      from IH [OF this] \<open>\<not> (in_both_left eye \<or> in_both_right eye)\<close> show False by simp
    qed
  qed
  with assms show ?thesis by simp
qed

subsection \<open>\<^verbatim>\<open>open_eyes\<close>\<close>

lemma open_eyes_loop_left:
  assumes "0 < sp"
  shows "open_eyes_loop lo ro (Some ''left'') sp s =
    Some (s\<lparr>current_eye_height_left := lo,
            current_closed := (if current_closed s = Some ''both'' then Some ''right'' else None)\<rparr>)"
proof (induction "nat (lo - current_eye_height_left s)" arbitrary: s rule: less_induct)
  case less
  let ?s' = "s\<lparr>current_eye_height_left := current_eye_height_left s + sp\<rparr>"
  show ?case
  proof (cases "lo \<le> current_eye_height_left s + sp")
    case True
    then show ?thesis
      by (subst open_eyes_loop.simps)
         (simp add: open_eyes_body_def in_both_left_def in_both_right_def min_def Let_def)
  next
    case False
    then have body: "open_eyes_body lo ro (Some ''left'') sp s = (False, ?s')"
      by (simp add: open_eyes_body_def in_both_left_def in_both_right_def min_def Let_def)
    have "nat (lo - current_eye_height_left ?s') < nat (lo - current_eye_height_left s)"
      using False assms by simp
    from less [OF this] show ?thesis
      by (subst open_eyes_loop.simps) (simp add: body)
  qed
qed

lemma open_eyes_loop_right:
  assumes "0 < sp"
  shows "open_eyes_loop lo ro (Some ''right'') sp s =
    Some (s\<lparr>current_eye_height_right := ro,
            current_closed := (if current_closed s = Some ''both'' then Some ''left'' else None)\<rparr>)"
proof (induction "nat (ro - current_eye_height_right s)" arbitrary: s rule: less_induct)
  case less
  let ?s' = "s\<lparr>current_eye_height_right := current_eye_height_right s + sp\<rparr>"
  show ?case
  proof (cases "ro \<le> current_eye_height_right s + sp")
    case True
    then show ?thesis
      by (subst open_eyes_loop.simps)
         (simp add: open_eyes_body_def in_both_left_def in_both_right_def min_def Let_def)
  next
    case False
    then have body: "open_eyes_body lo ro (Some ''right'') sp s = (False, ?s')"
      by (simp add: open_eyes_body_def in_both_left_def in_both_right_def min_def Let_def)
    have "nat (ro - current_eye_height_right ?s') < nat (ro - current_eye_height_right s)"
      using False assms by simp
    from less [OF this] show ?thesis
      by (subst open_eyes_loop.simps) (simp add: body)
  qed
qed

text \<open>Both eyes at the same height and with the same base height reach it in the same pass.\<close>

lemma open_eyes_loop_both_equal:
  assumes "0 < sp" "current_eye_height_left s = current_eye_height_right s"
  shows "open_eyes_loop b b (Some ''both'') sp s =
    Some (s\<lparr>current_eye_height_left := b, current_eye_height_right := b,
            current_closed := None\<rparr>)"
  using assms(2)
proof (induction "nat (b - current_eye_height_left s)" arbitrary: s rule: less_induct)
  case less
  let ?s' = "s\<lparr>current_eye_height_left := current_eye_height_left s + sp,
               current_eye_height_right := current_eye_height_right s + sp\<rparr>"
  show ?case
  proof (cases "b \<le> current_eye_height_left s + sp")
    case True
    then show ?thesis using less.prems
      by (subst open_eyes_loop.simps)
         (simp add: open_eyes_body_def in_both_left_def in_both_right_def min_def Let_def)
  next
    case False
    then have body: "open_eyes_body b b (Some ''both'') sp s = (False, ?s')"
      using less.prems
      by (simp add: open_eyes_body_def in_both_left_def in_both_right_def min_def Let_def)
    have m: "nat (b - current_eye_height_left ?s') < nat (b - current_eye_height_left s)"
      using False assms(1) by simp
    have e: "current_eye_height_left ?s' = current_eye_height_right ?s'"
      using less.prems by simp
    from less.hyps [OF m e] show ?thesis
      by (subst open_eyes_loop.simps) (simp add: body)
  qed
qed

lemma open_eyes_body_other:
  assumes "\<not> in_both_left eye" "\<not> in_both_right eye"
  shows "open_eyes_body lo ro eye sp s = (False, s)"
  using assms by (auto simp add: open_eyes_body_def in_both_left_def in_both_right_def)

lemma open_eyes_loop_other:
  assumes "\<not> in_both_left eye" "\<not> in_both_right eye"
  shows "open_eyes_loop lo ro eye sp s = None"
proof (cases "open_eyes_loop lo ro eye sp s")
  case None
  then show ?thesis .
next
  case (Some y)
  have "in_both_left eye \<or> in_both_right eye"
  proof (rule open_eyes_loop.raw_induct
      [where P = "\<lambda>lo ro eye sp s y. in_both_left eye \<or> in_both_right eye", OF _ Some])
    fix loop :: "int \<Rightarrow> int \<Rightarrow> string option \<Rightarrow> int \<Rightarrow> state \<Rightarrow> state option"
      and lo ro eye sp s y
    assume IH: "\<And>lo ro eye sp s y. loop lo ro eye sp s = Some y \<Longrightarrow>
        in_both_left eye \<or> in_both_right eye"
      and eq: "(if fst (open_eyes_body lo ro eye sp s)
                then Some (snd (open_eyes_body lo ro eye sp s))
                else loop lo ro eye sp (snd (open_eyes_body lo ro eye sp s))) = Some y"
    show "in_both_left eye \<or> in_both_right eye"
    proof (rule ccontr)
      assume "\<not> (in_both_left eye \<or> in_both_right eye)"
      then have "open_eyes_body lo ro eye sp s = (False, s)"
        by (simp add: open_eyes_body_other)
      with eq have "loop lo ro eye sp s = Some y" by simp
      from IH [OF this] \<open>\<not> (in_both_left eye \<or> in_both_right eye)\<close> show False by simp
    qed
  qed
  with assms show ?thesis by simp
qed

subsection \<open>\<^verbatim>\<open>close_eyes\<close> and \<^verbatim>\<open>open_eyes\<close> end for the three known eyes\<close>

lemma open_eyes_loop_both_ends:
  assumes "0 < sp"
  shows "\<exists>s'. open_eyes_loop lo ro (Some ''both'') sp s = Some s'"
proof (induction "nat (lo - current_eye_height_left s)" arbitrary: s rule: less_induct)
  case less
  show ?case
  proof (cases "fst (open_eyes_body lo ro (Some ''both'') sp s)")
    case True
    then show ?thesis by (subst open_eyes_loop.simps) simp
  next
    case False
    let ?s' = "snd (open_eyes_body lo ro (Some ''both'') sp s)"
    from False have "current_eye_height_left ?s' = current_eye_height_left s + sp \<and>
        current_eye_height_left s + sp < lo"
      by (simp add: open_eyes_body_def in_both_left_def in_both_right_def Let_def min_def
          split: if_splits)
    then have "nat (lo - current_eye_height_left ?s') < nat (lo - current_eye_height_left s)"
      using assms by simp
    from less [OF this] False show ?thesis
      by (subst open_eyes_loop.simps) simp
  qed
qed

lemma known_eye_cases:
  assumes "eye = Some ''left'' \<or> eye = Some ''right'' \<or> eye = Some ''both''"
  obtains (left) "eye = Some ''left''" | (right) "eye = Some ''right''" | (both) "eye = Some ''both''"
  using assms by blast

lemma close_eyes_ends:
  assumes "eye = Some ''left'' \<or> eye = Some ''right'' \<or> eye = Some ''both''"
  shows "\<exists>s'. close_eyes device config eye speed s = Some s'"
  using assms
  by (auto simp: close_eyes_def close_eyes_loop_left close_eyes_loop_right close_eyes_loop_both
      movement_speed_pos)

lemma open_eyes_loop_ends:
  assumes "eye = Some ''left'' \<or> eye = Some ''right'' \<or> eye = Some ''both''" "0 < sp"
  shows "\<exists>s'. open_eyes_loop lo ro eye sp s = Some s'"
  using assms(1)
proof (cases rule: known_eye_cases)
  case left
  then show ?thesis by (simp add: open_eyes_loop_left assms(2))
next
  case right
  then show ?thesis by (simp add: open_eyes_loop_right assms(2))
next
  case both
  then show ?thesis by (simp add: open_eyes_loop_both_ends assms(2))
qed

lemma open_eyes_ends:
  assumes "eye = Some ''left'' \<or> eye = Some ''right'' \<or> eye = Some ''both''"
  shows "\<exists>s'. open_eyes device config eye speed s = Some s'"
  by (simp add: open_eyes_def open_eyes_loop_ends [OF assms movement_speed_pos])

subsection \<open>A blink that does restore the open state\<close>

lemma blink_eyes_round_trip:
  assumes "current_closed s = None"
    and "current_eye_height_left s = left_height config"
    and "current_eye_height_right s = right_height config"
    and "eye = Some ''left'' \<or> eye = Some ''right'' \<or>
         (eye = Some ''both'' \<and> left_height config = right_height config)"
  shows "blink_eyes device config eye speed s = Some s"
proof -
  from assms(4) consider "eye = Some ''left''" | "eye = Some ''right''"
    | "eye = Some ''both''" "left_height config = right_height config" by blast
  then show ?thesis
  proof cases
    case 1
    then show ?thesis using assms(1,2,3)
      by (simp add: blink_eyes_def close_eyes_def open_eyes_def close_eyes_loop_left
          open_eyes_loop_left movement_speed_pos not_closed_def)
  next
    case 2
    then show ?thesis using assms(1,2,3)
      by (simp add: blink_eyes_def close_eyes_def open_eyes_def close_eyes_loop_right
          open_eyes_loop_right movement_speed_pos not_closed_def)
  next
    case 3
    then show ?thesis using assms(1,2,3)
      by (simp add: blink_eyes_def close_eyes_def open_eyes_def close_eyes_loop_both
          open_eyes_loop_both_equal movement_speed_pos not_closed_def)
  qed
qed

subsection \<open>The curious size\<close>

lemma curious_size_nonneg: "0 \<le> v \<Longrightarrow> curious_size v = (6 * v) div 5"
proof -
  assume v: "0 \<le> v"
  have "(of_int v :: rat) * (1 + 2 / 10) = of_int (6 * v) / of_int 5"
    by simp
  moreover have "0 \<le> (of_int v :: rat) * (1 + 2 / 10)" using v by simp
  ultimately show ?thesis
    unfolding curious_size_def py_int_def by (simp only: if_True floor_divide_of_int_eq)
qed

subsection \<open>Opening both eyes, pass by pass\<close>

lemma open_eyes_loop_both_passes:
  assumes "current_eye_height_left s + int n * sp < lo"
    and "current_eye_height_right s + int n * sp < ro" and "0 < sp"
  shows "open_eyes_loop lo ro (Some ''both'') sp s =
    open_eyes_loop lo ro (Some ''both'') sp
      (s\<lparr>current_eye_height_left := current_eye_height_left s + int n * sp,
         current_eye_height_right := current_eye_height_right s + int n * sp\<rparr>)"
  using assms(1,2)
proof (induction n arbitrary: s)
  case 0
  then show ?case by simp
next
  case (Suc n)
  let ?s' = "s\<lparr>current_eye_height_left := current_eye_height_left s + sp,
               current_eye_height_right := current_eye_height_right s + sp\<rparr>"
  have sp: "sp \<le> int (Suc n) * sp" using assms(3) by (simp add: algebra_simps)
  with Suc.prems have lt: "current_eye_height_left s + sp < lo"
      "current_eye_height_right s + sp < ro" by linarith+
  then have body: "open_eyes_body lo ro (Some ''both'') sp s = (False, ?s')"
    by (simp add: open_eyes_body_def in_both_left_def in_both_right_def Let_def min_def)
  have l: "current_eye_height_left ?s' + int n * sp < lo"
    and r: "current_eye_height_right ?s' + int n * sp < ro"
    using Suc.prems by (simp_all add: algebra_simps)
  have "open_eyes_loop lo ro (Some ''both'') sp s = open_eyes_loop lo ro (Some ''both'') sp ?s'"
    by (subst open_eyes_loop.simps) (simp add: body)
  also note Suc.IH [OF l r]
  finally show ?case by (simp add: algebra_simps)
qed

lemma open_eyes_loop_both_left_first:
  assumes "lo \<le> current_eye_height_left s + sp" "current_eye_height_right s + sp < ro"
  shows "open_eyes_loop lo ro (Some ''both'') sp s =
    Some (s\<lparr>current_eye_height_left := lo,
            current_eye_height_right := current_eye_height_right s + sp,
            current_closed := (if current_closed s = Some ''both'' then Some ''right'' else None)\<rparr>)"
  using assms
  by (subst open_eyes_loop.simps)
     (simp add: open_eyes_body_def in_both_left_def in_both_right_def Let_def min_def)

lemma open_eyes_loop_both_right_first:
  assumes "current_eye_height_left s + sp < lo" "ro \<le> current_eye_height_right s + sp"
  shows "open_eyes_loop lo ro (Some ''both'') sp s =
    Some (s\<lparr>current_eye_height_left := current_eye_height_left s + sp,
            current_eye_height_right := ro,
            current_closed := (if current_closed s = Some ''both'' then Some ''left'' else None)\<rparr>)"
  using assms
  by (subst open_eyes_loop.simps)
     (simp add: open_eyes_body_def in_both_left_def in_both_right_def Let_def min_def)

lemma movement_speed_fast: "movement_speed ''fast'' = 4"
  by (simp add: movement_speed_def)

subsection \<open>What the commands preserve\<close>

lemma look_result:
  "\<exists>tx ty. look device config direction speed s =
     Some (s\<lparr>current_offset_x := tx, current_offset_y := ty\<rparr>)"
proof (cases "target_offset (get_constraints config device s) direction")
  case (Pair a b)
  then have "look device config direction speed s =
      Some (s\<lparr>current_offset_x := of_int a, current_offset_y := of_int b\<rparr>)"
    by (simp add: look_def look_loop_reaches speed_map_pos)
  then show ?thesis by blast
qed

lemma close_eyes_result:
  assumes "close_eyes device config eye speed s = Some s'"
  shows "s' = s\<lparr>current_eye_height_left := 2, current_closed := Some ''left''\<rparr> \<or>
         s' = s\<lparr>current_eye_height_right := 2, current_closed := Some ''right''\<rparr> \<or>
         s' = s\<lparr>current_eye_height_left := 2, current_eye_height_right := 2,
                 current_closed := Some ''both''\<rparr>"
proof (cases "eye = Some ''left'' \<or> eye = Some ''right'' \<or> eye = Some ''both''")
  case True
  with assms show ?thesis
    by (auto simp: close_eyes_def close_eyes_loop_left close_eyes_loop_right
        close_eyes_loop_both movement_speed_pos)
next
  case False
  then have "\<not> in_both_left eye" "\<not> in_both_right eye"
    by (simp_all add: in_both_left_def in_both_right_def)
  with assms show ?thesis
    by (simp add: close_eyes_def close_eyes_loop_other)
qed

lemma open_eyes_body_in_range:
  assumes "in_range lo ro s" "0 < sp" "2 \<le> lo" "2 \<le> ro"
  shows "in_range lo ro (snd (open_eyes_body lo ro eye sp s))"
  using assms
  by (simp add: open_eyes_body_def in_range_def Let_def min_def)

lemma open_eyes_body_closed:
  "fst (open_eyes_body lo ro eye sp s) \<Longrightarrow>
   current_closed (snd (open_eyes_body lo ro eye sp s)) \<noteq> Some ''both''"
  by (simp add: open_eyes_body_def Let_def split: if_splits)

lemma open_eyes_loop_in_range:
  assumes "open_eyes_loop lo ro eye sp s = Some s'"
  shows "in_range lo ro s \<and> 0 < sp \<and> 2 \<le> lo \<and> 2 \<le> ro \<longrightarrow> in_range lo ro s'"
proof (rule open_eyes_loop.raw_induct
    [where P = "\<lambda>lo ro eye sp s s'.
       in_range lo ro s \<and> 0 < sp \<and> 2 \<le> lo \<and> 2 \<le> ro \<longrightarrow> in_range lo ro s'", OF _ assms])
  fix loop :: "int \<Rightarrow> int \<Rightarrow> string option \<Rightarrow> int \<Rightarrow> state \<Rightarrow> state option"
    and lo ro eye sp s s'
  assume IH: "\<And>lo ro eye sp s s'. loop lo ro eye sp s = Some s' \<Longrightarrow>
      in_range lo ro s \<and> 0 < sp \<and> 2 \<le> lo \<and> 2 \<le> ro \<longrightarrow> in_range lo ro s'"
    and eq: "(if fst (open_eyes_body lo ro eye sp s)
              then Some (snd (open_eyes_body lo ro eye sp s))
              else loop lo ro eye sp (snd (open_eyes_body lo ro eye sp s))) = Some s'"
  show "in_range lo ro s \<and> 0 < sp \<and> 2 \<le> lo \<and> 2 \<le> ro \<longrightarrow> in_range lo ro s'"
  proof
    assume a: "in_range lo ro s \<and> 0 < sp \<and> 2 \<le> lo \<and> 2 \<le> ro"
    then have b: "in_range lo ro (snd (open_eyes_body lo ro eye sp s))"
      by (simp add: open_eyes_body_in_range)
    show "in_range lo ro s'"
    proof (cases "fst (open_eyes_body lo ro eye sp s)")
      case True
      with eq b show ?thesis by simp
    next
      case False
      with eq have "loop lo ro eye sp (snd (open_eyes_body lo ro eye sp s)) = Some s'" by simp
      from IH [OF this] a b show ?thesis by simp
    qed
  qed
qed

lemma open_eyes_loop_not_both:
  assumes "open_eyes_loop lo ro eye sp s = Some s'"
  shows "current_closed s' \<noteq> Some ''both''"
proof (rule open_eyes_loop.raw_induct
    [where P = "\<lambda>lo ro eye sp s s'. current_closed s' \<noteq> Some ''both''", OF _ assms])
  fix loop :: "int \<Rightarrow> int \<Rightarrow> string option \<Rightarrow> int \<Rightarrow> state \<Rightarrow> state option"
    and lo ro eye sp s s'
  assume IH: "\<And>lo ro eye sp s s'. loop lo ro eye sp s = Some s' \<Longrightarrow>
      current_closed s' \<noteq> Some ''both''"
    and eq: "(if fst (open_eyes_body lo ro eye sp s)
              then Some (snd (open_eyes_body lo ro eye sp s))
              else loop lo ro eye sp (snd (open_eyes_body lo ro eye sp s))) = Some s'"
  show "current_closed s' \<noteq> Some ''both''"
  proof (cases "fst (open_eyes_body lo ro eye sp s)")
    case True
    with eq open_eyes_body_closed [OF True] show ?thesis by auto
  next
    case False
    with eq have "loop lo ro eye sp (snd (open_eyes_body lo ro eye sp s)) = Some s'" by simp
    from IH [OF this] show ?thesis .
  qed
qed

lemma half_in_range:
  fixes x :: int
  assumes "2 \<le> x" "x \<le> b"
  shows "0 \<le> x div 2" "2 * (x div 2) \<le> b"
  using assms by simp_all

lemma change_face_in_range:
  assumes "in_range lo ro s"
  shows "in_range lo ro (change_face device config new_face s)"
proof -
  from assms have l: "2 \<le> current_eye_height_left s" "current_eye_height_left s \<le> lo"
    and r: "2 \<le> current_eye_height_right s" "current_eye_height_right s \<le> ro"
    by (simp_all add: in_range_def)
  from l r have "0 \<le> lo" "0 \<le> ro" by simp_all
  with assms half_in_range [OF l] half_in_range [OF r] show ?thesis
    by (simp add: change_face_def Let_def change_face_loop_target target_eyelid_heights_def
        in_range_def)
qed

lemma open_eyes_in_range:
  assumes "open_eyes device config eye speed s = Some s'"
    and "in_range (left_height config) (right_height config) s"
    and "2 \<le> left_height config" "2 \<le> right_height config"
  shows "in_range (left_height config) (right_height config) s'"
proof -
  let ?lo = "left_height config" and ?ro = "right_height config"
  have start: "in_range ?lo ?ro (s\<lparr>current_eye_height_left := a, current_eye_height_right := b\<rparr>)"
    if "2 \<le> a" "a \<le> ?lo" "2 \<le> b" "b \<le> ?ro" for a b
    using assms(2) that by (simp add: in_range_def)
  have loop: "in_range ?lo ?ro s'"
    if "open_eyes_loop ?lo ?ro eye (movement_speed speed) t = Some s'" "in_range ?lo ?ro t" for t
    using open_eyes_loop_in_range [OF that(1)] that(2) assms(3,4) movement_speed_pos by simp
  show ?thesis
  proof (cases "not_closed (current_closed s)")
    case True
    with assms(1) have "s' = s" by (simp add: open_eyes_def)
    with assms(2) show ?thesis by simp
  next
    case open_: False
    show ?thesis
    proof (cases "current_closed s = Some ''both''")
      case True
      with open_ assms(1) have "open_eyes_loop ?lo ?ro eye (movement_speed speed)
          (s\<lparr>current_eye_height_left := 2, current_eye_height_right := 2\<rparr>) = Some s'"
        by (simp add: open_eyes_def)
      then show ?thesis by (rule loop [OF _ start]) (simp_all add: assms(3,4))
    next
      case nb: False
      show ?thesis
      proof (cases "current_closed s = Some ''left''")
        case True
        with open_ assms(1) have "open_eyes_loop ?lo ?ro eye (movement_speed speed)
            (s\<lparr>current_eye_height_left := 2, current_eye_height_right := ?ro\<rparr>) = Some s'"
          by (simp add: open_eyes_def)
        then show ?thesis by (rule loop [OF _ start]) (simp_all add: assms(3,4))
      next
        case nl: False
        show ?thesis
        proof (cases "current_closed s = Some ''right''")
          case True
          with open_ assms(1) have "open_eyes_loop ?lo ?ro eye (movement_speed speed)
              (s\<lparr>current_eye_height_left := ?lo, current_eye_height_right := 2\<rparr>) = Some s'"
            by (simp add: open_eyes_def)
          then show ?thesis by (rule loop [OF _ start]) (simp_all add: assms(3,4))
        next
          case False
          with open_ nb nl assms(1) have "s' = s" by (simp add: open_eyes_def)
          with assms(2) show ?thesis by simp
        qed
      qed
    qed
  qed
qed

lemma exec_in_range:
  assumes "exec device config c s = Some s'"
    and "in_range (left_height config) (right_height config) s"
    and "2 \<le> left_height config" "2 \<le> right_height config"
  shows "in_range (left_height config) (right_height config) s'"
proof (cases c)
  case (Change_face f)
  with assms show ?thesis by (auto simp: change_face_in_range)
next
  case Curious_mode
  with assms show ?thesis by (auto simp: curious_mode_def in_range_def)
next
  case (Look d sp)
  with assms look_result [of device config d sp s] show ?thesis
    by (auto simp: in_range_def)
next
  case (Close_eyes eye sp)
  with assms(1) have "close_eyes device config eye sp s = Some s'" by simp
  from close_eyes_result [OF this] assms(2,3,4) show ?thesis
    by (auto simp: in_range_def)
next
  case (Open_eyes eye sp)
  with assms(1) have "open_eyes device config eye sp s = Some s'" by simp
  from open_eyes_in_range [OF this assms(2,3,4)] show ?thesis .
next
  case (Blink_eyes eye sp)
  with assms(1) obtain t where t: "close_eyes device config eye sp s = Some t"
    and o: "open_eyes device config eye sp t = Some s'"
    by (auto simp: blink_eyes_def split: option.splits)
  from close_eyes_result [OF t] assms(2,3,4)
  have "in_range (left_height config) (right_height config) t"
    by (auto simp: in_range_def)
  from open_eyes_in_range [OF o this assms(3,4)] show ?thesis .
qed

lemma run_in_range:
  assumes "2 \<le> left_height config" "2 \<le> right_height config"
  shows "run device config cs s = Some s' \<Longrightarrow>
    in_range (left_height config) (right_height config) s \<Longrightarrow>
    in_range (left_height config) (right_height config) s'"
proof (induction cs arbitrary: s)
  case Nil
  then show ?case by simp
next
  case (Cons c cs)
  from Cons.prems(1) obtain t where t: "exec device config c s = Some t"
    and r: "run device config cs t = Some s'"
    by (auto split: option.splits)
  from exec_in_range [OF t Cons.prems(2) assms] have "in_range (left_height config) (right_height config) t" .
  from Cons.IH [OF r this] show ?case .
qed

lemma open_eyes_cases:
  assumes "open_eyes device config eye speed s = Some s'"
  shows "s' = s \<or> (\<exists>t. open_eyes_loop (left_height config) (right_height config) eye
            (movement_speed speed) t = Some s')"
proof (cases "not_closed (current_closed s)")
  case True
  with assms show ?thesis by (simp add: open_eyes_def)
next
  case open_: False
  let ?lo = "left_height config" and ?ro = "right_height config"
  show ?thesis
  proof (cases "current_closed s = Some ''both''")
    case True
    with open_ assms have "open_eyes_loop ?lo ?ro eye (movement_speed speed)
        (s\<lparr>current_eye_height_left := 2, current_eye_height_right := 2\<rparr>) = Some s'"
      by (simp add: open_eyes_def)
    then show ?thesis by blast
  next
    case nb: False
    show ?thesis
    proof (cases "current_closed s = Some ''left''")
      case True
      with open_ assms have "open_eyes_loop ?lo ?ro eye (movement_speed speed)
          (s\<lparr>current_eye_height_left := 2, current_eye_height_right := ?ro\<rparr>) = Some s'"
        by (simp add: open_eyes_def)
      then show ?thesis by blast
    next
      case nl: False
      show ?thesis
      proof (cases "current_closed s = Some ''right''")
        case True
        with open_ assms have "open_eyes_loop ?lo ?ro eye (movement_speed speed)
            (s\<lparr>current_eye_height_left := ?lo, current_eye_height_right := 2\<rparr>) = Some s'"
          by (simp add: open_eyes_def)
        then show ?thesis by blast
      next
        case False
        with open_ nb nl assms show ?thesis by (simp add: open_eyes_def)
      qed
    qed
  qed
qed

lemma open_eyes_both_closed:
  assumes "open_eyes device config eye speed s = Some s'" "both_closed_at_minimum s"
  shows "both_closed_at_minimum s'"
proof (cases "s' = s")
  case True
  with assms(2) show ?thesis by simp
next
  case False
  with open_eyes_cases [OF assms(1)] obtain t where
    "open_eyes_loop (left_height config) (right_height config) eye (movement_speed speed) t = Some s'"
    by blast
  from open_eyes_loop_not_both [OF this] show ?thesis
    by (simp add: both_closed_at_minimum_def)
qed

lemma exec_both_closed:
  assumes "exec device config c s = Some s'" "both_closed_at_minimum s"
  shows "both_closed_at_minimum s'"
proof (cases c)
  case (Change_face f)
  with assms show ?thesis
    by (auto simp: change_face_def Let_def both_closed_at_minimum_def)
next
  case Curious_mode
  with assms show ?thesis by (auto simp: curious_mode_def both_closed_at_minimum_def)
next
  case (Look d sp)
  with assms look_result [of device config d sp s] show ?thesis
    by (auto simp: both_closed_at_minimum_def)
next
  case (Close_eyes eye sp)
  with assms(1) have "close_eyes device config eye sp s = Some s'" by simp
  from close_eyes_result [OF this] assms(2) show ?thesis
    by (auto simp: both_closed_at_minimum_def)
next
  case (Open_eyes eye sp)
  with assms(1) have "open_eyes device config eye sp s = Some s'" by simp
  from open_eyes_both_closed [OF this assms(2)] show ?thesis .
next
  case (Blink_eyes eye sp)
  with assms(1) obtain t where t: "close_eyes device config eye sp s = Some t"
    and o: "open_eyes device config eye sp t = Some s'"
    by (auto simp: blink_eyes_def split: option.splits)
  from close_eyes_result [OF t] assms(2) have "both_closed_at_minimum t"
    by (auto simp: both_closed_at_minimum_def)
  from open_eyes_both_closed [OF o this] show ?thesis .
qed

lemma run_both_closed:
  "run device config cs s = Some s' \<Longrightarrow> both_closed_at_minimum s \<Longrightarrow>
   both_closed_at_minimum s'"
proof (induction cs arbitrary: s)
  case Nil
  then show ?case by simp
next
  case (Cons c cs)
  from Cons.prems(1) obtain t where t: "exec device config c s = Some t"
    and r: "run device config cs t = Some s'"
    by (auto split: option.splits)
  from Cons.IH [OF r exec_both_closed [OF t Cons.prems(2)]] show ?case .
qed

subsection \<open>Some runs\<close>

lemma close_both_taller_left:
  "close_eyes scenario_device taller_left_config (Some ''both'') ''fast''
     (initial_state taller_left_config) =
   Some ((initial_state taller_left_config)
      \<lparr>current_eye_height_left := 2, current_eye_height_right := 2,
        current_closed := Some ''both''\<rparr>)"
  by (simp add: close_eyes_def close_eyes_loop_both movement_speed_pos)

lemma open_both_taller_left:
  "open_eyes scenario_device taller_left_config (Some ''both'') ''fast''
     ((initial_state taller_left_config)
      \<lparr>current_eye_height_left := 2, current_eye_height_right := 2,
        current_closed := Some ''both''\<rparr>) =
   Some ((initial_state taller_left_config)
          \<lparr>current_eye_height_left := 34, current_closed := Some ''left''\<rparr>)"
proof -
  let ?c = "(initial_state taller_left_config)
      \<lparr>current_eye_height_left := 2, current_eye_height_right := 2,
        current_closed := Some ''both''\<rparr>"
  have "open_eyes_loop 40 32 (Some ''both'') 4 ?c =
      open_eyes_loop 40 32 (Some ''both'') 4
        (?c\<lparr>current_eye_height_left := current_eye_height_left ?c + int 7 * 4,
            current_eye_height_right := current_eye_height_right ?c + int 7 * 4\<rparr>)"
    by (rule open_eyes_loop_both_passes) simp_all
  also have "\<dots> = Some ((initial_state taller_left_config)
          \<lparr>current_eye_height_left := 34, current_closed := Some ''left''\<rparr>)"
    by (subst open_eyes_loop_both_right_first)
       (simp_all add: initial_state_def taller_left_config_def)
  finally show ?thesis
    by (simp add: open_eyes_def not_closed_def movement_speed_fast taller_left_config_def
        initial_state_def)
qed

lemma close_both_unequal:
  "close_eyes scenario_device unequal_config (Some ''both'') ''fast''
     (initial_state unequal_config) =
   Some ((initial_state unequal_config)
      \<lparr>current_eye_height_left := 2, current_eye_height_right := 2,
        current_closed := Some ''both''\<rparr>)"
  by (simp add: close_eyes_def close_eyes_loop_both movement_speed_pos)

lemma open_both_unequal:
  "open_eyes scenario_device unequal_config (Some ''both'') ''fast''
     ((initial_state unequal_config)
      \<lparr>current_eye_height_left := 2, current_eye_height_right := 2,
        current_closed := Some ''both''\<rparr>) =
   Some ((initial_state unequal_config)
          \<lparr>current_eye_height_right := 34, current_closed := Some ''right''\<rparr>)"
proof -
  let ?c = "(initial_state unequal_config)
      \<lparr>current_eye_height_left := 2, current_eye_height_right := 2,
        current_closed := Some ''both''\<rparr>"
  have "open_eyes_loop 32 40 (Some ''both'') 4 ?c =
      open_eyes_loop 32 40 (Some ''both'') 4
        (?c\<lparr>current_eye_height_left := current_eye_height_left ?c + int 7 * 4,
            current_eye_height_right := current_eye_height_right ?c + int 7 * 4\<rparr>)"
    by (rule open_eyes_loop_both_passes) simp_all
  also have "\<dots> = Some ((initial_state unequal_config)
          \<lparr>current_eye_height_right := 34, current_closed := Some ''right''\<rparr>)"
    by (subst open_eyes_loop_both_left_first) (simp_all add: initial_state_def unequal_config_def)
  finally show ?thesis
    by (simp add: open_eyes_def not_closed_def movement_speed_fast unequal_config_def
        initial_state_def)
qed

lemma initial_in_range:
  assumes "2 \<le> left_height config" "2 \<le> right_height config"
  shows "in_range (left_height config) (right_height config) (initial_state config)"
  using assms by (simp add: in_range_def initial_state_def)

lemma happy_then_close_both:
  "run scenario_device default_config
     [Change_face (Some ''happy''), Close_eyes (Some ''both'') ''fast'']
     (initial_state default_config) =
   Some ((initial_state default_config)
     \<lparr>current_face := ''happy'', current_closed := Some ''both'',
       eyelid_bottom_left_height := 16, eyelid_bottom_right_height := 16,
       current_eye_height_left := 2, current_eye_height_right := 2\<rparr>)"
  by (simp add: change_face_def Let_def change_face_loop_target target_eyelid_heights_def
      close_eyes_def close_eyes_loop_both movement_speed_pos initial_state_def
      default_config_def)

lemma close_both_fast:
  "run scenario_device default_config [Close_eyes (Some ''both'') ''fast'']
     (initial_state default_config) =
   Some ((initial_state default_config)
     \<lparr>current_closed := Some ''both'', current_eye_height_left := 2,
       current_eye_height_right := 2\<rparr>)"
  by (simp add: close_eyes_def close_eyes_loop_both movement_speed_pos initial_state_def)

section \<open>The claims\<close>

text \<open>
  C1. From the open state, \<^verbatim>\<open>close_eyes\<close> followed by \<^verbatim>\<open>open_eyes\<close> (that is,
  \<^verbatim>\<open>blink_eyes\<close>) should return with both heights at their bases and
  \<^verbatim>\<open>current_closed = None\<close>. It does so for one eye, and for both eyes when their
  base heights are equal (\<open>blink_eyes_round_trip\<close>). With base heights 32 and 40,
  blinking both eyes at speed fast returns with the right eye at 34, not 40, and
  \<^verbatim>\<open>current_closed = "right"\<close>: the second test of the loop of \<^verbatim>\<open>open_eyes\<close> also
  accepts \<^verbatim>\<open>eye = "both"\<close>, and leaves the loop as soon as the left eye is open.
\<close>

theorem blink_both_unequal_heights:
  "blink_eyes scenario_device unequal_config (Some ''both'') ''fast''
     (initial_state unequal_config) =
   Some ((initial_state unequal_config)
          \<lparr>current_eye_height_right := 34, current_closed := Some ''right''\<rparr>) \<and>
   right_height unequal_config = 40"
proof
  show "blink_eyes scenario_device unequal_config (Some ''both'') ''fast''
     (initial_state unequal_config) =
   Some ((initial_state unequal_config)
          \<lparr>current_eye_height_right := 34, current_closed := Some ''right''\<rparr>)"
    by (simp add: blink_eyes_def close_both_unequal open_both_unequal)
  show "right_height unequal_config = 40"
    by (simp add: unequal_config_def)
qed

text \<open>
  C2. \<^verbatim>\<open>change_face("happy")\<close> returns, with the two bottom lids at half the current
  height of their eye and the four top lids at 0; a following \<^verbatim>\<open>change_face("default")\<close>
  returns with all six lids at exactly 0. This holds from every state. Each pass of the
  loop moves a lid by 2 towards its target, and onto the target when it is at most 2 away.
  (\<open>change_face\<close> is a total function: its loop was shown to end for every input.)
\<close>

theorem change_face_happy_then_default:
  "current_eyelid_positions (change_face device config (Some ''happy'') s) =
     \<lparr> top_inner_left = 0, top_outer_left = 0,
       bottom_left = current_eye_height_left s div 2,
       top_inner_right = 0, top_outer_right = 0,
       bottom_right = current_eye_height_right s div 2 \<rparr> \<and>
   current_eyelid_positions
     (change_face device config (Some ''default'')
        (change_face device config (Some ''happy'') s)) =
     \<lparr> top_inner_left = 0, top_outer_left = 0, bottom_left = 0,
       top_inner_right = 0, top_outer_right = 0, bottom_right = 0 \<rparr> \<and>
   adjust_key cur tgt =
     (if \<bar>tgt - cur\<bar> \<le> 2 then tgt else if cur < tgt then cur + 2 else cur - 2)"
proof (intro conjI)
  show "current_eyelid_positions (change_face device config (Some ''happy'') s) =
     \<lparr> top_inner_left = 0, top_outer_left = 0,
       bottom_left = current_eye_height_left s div 2,
       top_inner_right = 0, top_outer_right = 0,
       bottom_right = current_eye_height_right s div 2 \<rparr>"
    by (simp add: change_face_eyelids target_eyelid_heights_def)
  show "current_eyelid_positions
     (change_face device config (Some ''default'')
        (change_face device config (Some ''happy'') s)) =
     \<lparr> top_inner_left = 0, top_outer_left = 0, bottom_left = 0,
       top_inner_right = 0, top_outer_right = 0, bottom_right = 0 \<rparr>"
    by (simp add: change_face_eyelids target_eyelid_heights_def)
  show "adjust_key cur tgt =
     (if \<bar>tgt - cur\<bar> \<le> 2 then tgt else if cur < tgt then cur + 2 else cur - 2)"
    by (simp add: adjust_key_def min_def max_def)
qed

theorem change_face_happy_then_default_witness:
  "current_eyelid_positions
     (change_face scenario_device default_config (Some ''happy'') (initial_state default_config)) =
     \<lparr> top_inner_left = 0, top_outer_left = 0, bottom_left = 16,
       top_inner_right = 0, top_outer_right = 0, bottom_right = 16 \<rparr> \<and>
   current_eyelid_positions
     (change_face scenario_device default_config (Some ''default'')
        (change_face scenario_device default_config (Some ''happy'')
           (initial_state default_config))) =
     \<lparr> top_inner_left = 0, top_outer_left = 0, bottom_left = 0,
       top_inner_right = 0, top_outer_right = 0, bottom_right = 0 \<rparr> \<and>
   adjust_key 15 16 = 16 \<and> adjust_key 4 0 = 2"
  using change_face_happy_then_default [of scenario_device default_config
      "initial_state default_config" 15 16]
    change_face_happy_then_default [of scenario_device default_config
      "initial_state default_config" 4 0]
  by (simp add: initial_state_def default_config_def)

text \<open>
  C3. As stated, the claim fails for Y: on the 128 by 64 display with the default eyes,
  \<^verbatim>\<open>get_constraints\<close> returns \<^verbatim>\<open>min_y_offset = -16\<close>, where the formula of X with
  heights for widths gives 5, and gives 0 without the distance.
\<close>

theorem get_constraints_not_analogous_counterexample:
  "get_constraints default_config scenario_device (initial_state default_config) =
     (- 27, 27, - 16, 16) \<and>
   computeConstraints_spec default_config scenario_device (initial_state default_config) =
     (- 27, 27, 5, - 5) \<and>
   get_constraints default_config scenario_device (initial_state default_config) \<noteq>
   computeConstraints_spec default_config scenario_device (initial_state default_config) \<and>
   - (height scenario_device div 2 - left_height default_config) \<noteq> (- 16 :: int)"
  by (simp add: get_constraints_def computeConstraints_spec_def default_config_def
      scenario_device_def initial_state_def)

text \<open>
  C3, amended. For every configuration, device and state, \<^verbatim>\<open>get_constraints\<close> returns
  \<^verbatim>\<open>min_x = -(width // 2 - eye_width_left - distance // 2)\<close>,
  \<^verbatim>\<open>max_x = width // 2 - eye_width_right - distance // 2\<close>,
  \<^verbatim>\<open>min_y = -(height // 2 - eye_height_left // 2)\<close> and
  \<^verbatim>\<open>max_y = height // 2 - eye_height_right // 2\<close>: the Y formulas subtract half the eye's
  height and no distance. The four sizes are the base sizes, or, when
  \<^verbatim>\<open>current_curious\<close> is set, the base sizes times 1.2 truncated to an integer (for a
  size \<open>v \<ge> 0\<close>, \<open>6 v div 5\<close>).
\<close>

theorem get_constraints_formulas:
  "get_constraints config device s =
     (- (width device div 2
          - (if current_curious s then curious_size (left_width config) else left_width config)
          - distance config div 2),
      width device div 2
          - (if current_curious s then curious_size (right_width config) else right_width config)
          - distance config div 2,
      - (height device div 2
          - (if current_curious s then curious_size (left_height config) else left_height config)
            div 2),
      height device div 2
          - (if current_curious s then curious_size (right_height config) else right_height config)
            div 2) \<and>
   (0 \<le> v \<longrightarrow> curious_size v = (6 * v) div 5)"
  by (simp add: get_constraints_def Let_def curious_size_nonneg)

theorem get_constraints_formulas_witness:
  "get_constraints default_config scenario_device
      ((initial_state default_config)\<lparr>current_curious := True\<rparr>) = (- 21, 21, - 13, 13) \<and>
   get_constraints default_config scenario_device (initial_state default_config) =
      (- 27, 27, - 16, 16) \<and>
   curious_size 32 = 38"
  using get_constraints_formulas [of default_config scenario_device
      "(initial_state default_config)\<lparr>current_curious := True\<rparr>" 32]
    get_constraints_formulas [of default_config scenario_device
      "initial_state default_config" 32]
  by (simp add: default_config_def scenario_device_def initial_state_def)

text \<open>
  C4. As stated, the claim fails for X: with a left eye 62 wide, a right eye 20 wide, both
  30 high, at distance 10 on the 128 by 64 display, each width is below half the screen
  width, each height below half the screen height, the two eyes and the distance fit in
  the screen's width, and \<^verbatim>\<open>get_constraints\<close> returns \<^verbatim>\<open>min_x = 3\<close>.
\<close>

theorem constraints_contain_zero_counterexample:
  "2 * left_width wide_left_config < width scenario_device \<and>
   2 * right_width wide_left_config < width scenario_device \<and>
   2 * left_height wide_left_config < height scenario_device \<and>
   2 * right_height wide_left_config < height scenario_device \<and>
   left_width wide_left_config + distance wide_left_config + right_width wide_left_config
     \<le> width scenario_device \<and>
   get_constraints wide_left_config scenario_device (initial_state wide_left_config) =
     (3, 39, - 17, 17) \<and>
   \<not> (3 \<le> (0 :: int))"
  by (simp add: get_constraints_def wide_left_config_def scenario_device_def initial_state_def)

text \<open>
  C4, amended. Whenever each base eye height is non-negative and smaller than half the
  screen height, \<^verbatim>\<open>min_y \<le> 0 \<le> max_y\<close>. On X, \<^verbatim>\<open>min_x \<le> 0\<close> holds exactly when the
  left eye's width (inflated when curious) plus \<^verbatim>\<open>distance // 2\<close> is at most
  \<^verbatim>\<open>width // 2\<close>, and \<^verbatim>\<open>0 \<le> max_x\<close> exactly when the right eye's is.
\<close>

theorem constraints_contain_zero:
  assumes "get_constraints config device s = (min_x, max_x, min_y, max_y)"
    and "0 \<le> left_height config" "0 \<le> right_height config"
    and "2 * left_height config < height device" "2 * right_height config < height device"
  shows "min_y \<le> 0 \<and> 0 \<le> max_y \<and>
    (min_x \<le> 0 \<longleftrightarrow>
       (if current_curious s then curious_size (left_width config) else left_width config)
         + distance config div 2 \<le> width device div 2) \<and>
    (0 \<le> max_x \<longleftrightarrow>
       (if current_curious s then curious_size (right_width config) else right_width config)
         + distance config div 2 \<le> width device div 2)"
proof -
  have l: "(if current_curious s then curious_size (left_height config) else left_height config)
      div 2 \<le> height device div 2"
    using assms(2,4) by (auto simp: curious_size_nonneg)
  have r: "(if current_curious s then curious_size (right_height config) else right_height config)
      div 2 \<le> height device div 2"
    using assms(3,5) by (auto simp: curious_size_nonneg)
  from assms(1) l r show ?thesis
    by (auto simp: get_constraints_def Let_def)
qed

theorem constraints_contain_zero_witness:
  "get_constraints default_config \<lparr>width = 128, height = 66\<rparr> (initial_state default_config) =
     (- 27, 27, - 17, 17) \<and>
   (- 17 :: int) \<le> 0 \<and> (0 :: int) \<le> 17 \<and> (- 27 :: int) \<le> 0 \<and> (0 :: int) \<le> 27"
proof -
  have g: "get_constraints default_config \<lparr>width = 128, height = 66\<rparr>
      (initial_state default_config) = (- 27, 27, - 17, 17)"
    by (simp add: get_constraints_def default_config_def initial_state_def)
  have h: "0 \<le> left_height default_config" "0 \<le> right_height default_config"
    "2 * left_height default_config < height \<lparr>width = 128, height = 66\<rparr>"
    "2 * right_height default_config < height \<lparr>width = 128, height = 66\<rparr>"
    by (simp_all add: default_config_def)
  from constraints_contain_zero [OF g h] g show ?thesis by simp
qed

text \<open>
  C5. On the 128 by 64 display with the default eyes and \<^verbatim>\<open>current_curious = False\<close>,
  from the offsets (0, 0): \<^verbatim>\<open>look("TR", "fast")\<close> returns with the offsets at
  (\<^verbatim>\<open>max_x_offset\<close>, \<^verbatim>\<open>min_y_offset\<close>) = (27, -16) of \<^verbatim>\<open>get_constraints\<close>, and a
  following \<^verbatim>\<open>look("C", "slow")\<close> returns with the offsets at (0, 0) again. The fast
  step is 2 and the slow step one half; the vertical axis is at its target after 8 passes
  and stays there, the horizontal one goes on alone, is at 26 after 13 passes and at 27
  after the 14th; the slow way back takes 54 passes.
\<close>

theorem look_TR_fast_then_C_slow:
  assumes "\<not> current_curious s" "current_offset_x s = 0" "current_offset_y s = 0"
  shows "get_constraints default_config scenario_device s = (- 27, 27, - 16, 16) \<and>
    look scenario_device default_config ''TR'' ''fast'' s =
      Some (s\<lparr>current_offset_x := 27, current_offset_y := - 16\<rparr>) \<and>
    look scenario_device default_config ''C'' ''slow''
        (s\<lparr>current_offset_x := 27, current_offset_y := - 16\<rparr>) = Some s \<and>
    speed_map ''fast'' = 2 \<and> speed_map ''slow'' = 1 / 2 \<and>
    (look_body 2 27 (- 16) ^^ 8) s = s\<lparr>current_offset_x := 16, current_offset_y := - 16\<rparr> \<and>
    (look_body 2 27 (- 16) ^^ 13) s = s\<lparr>current_offset_x := 26, current_offset_y := - 16\<rparr> \<and>
    (look_body 2 27 (- 16) ^^ 14) s = s\<lparr>current_offset_x := 27, current_offset_y := - 16\<rparr> \<and>
    look_body (1 / 2) 0 0 (s\<lparr>current_offset_x := 27, current_offset_y := - 16\<rparr>) =
      s\<lparr>current_offset_x := 53 / 2, current_offset_y := - 31 / 2\<rparr> \<and>
    (look_body (1 / 2) 0 0 ^^ 53) (s\<lparr>current_offset_x := 27, current_offset_y := - 16\<rparr>) =
      s\<lparr>current_offset_x := 1 / 2\<rparr> \<and>
    (look_body (1 / 2) 0 0 ^^ 54) (s\<lparr>current_offset_x := 27, current_offset_y := - 16\<rparr>) = s"
proof (intro conjI)
  show c: "get_constraints default_config scenario_device s = (- 27, 27, - 16, 16)"
    by (rule scenario_constraints [OF assms(1)])
  show "look scenario_device default_config ''TR'' ''fast'' s =
      Some (s\<lparr>current_offset_x := 27, current_offset_y := - 16\<rparr>)"
    by (simp add: look_def c target_offset_def look_loop_reaches speed_map_pos)
  have c': "get_constraints default_config scenario_device
      (s\<lparr>current_offset_x := 27, current_offset_y := - 16\<rparr>) = (- 27, 27, - 16, 16)"
    using assms(1) by (simp add: scenario_constraints)
  have s0: "s\<lparr>current_offset_x := 0, current_offset_y := 0\<rparr> = s"
    using assms(2,3) by simp
  have sy: "s\<lparr>current_offset_x := x, current_offset_y := 0\<rparr> = s\<lparr>current_offset_x := x\<rparr>" for x
    using assms(3) by simp
  from s0 show "look scenario_device default_config ''C'' ''slow''
        (s\<lparr>current_offset_x := 27, current_offset_y := - 16\<rparr>) = Some s"
    by (simp add: look_def c' target_offset_def look_loop_reaches speed_map_pos)
  show "speed_map ''fast'' = 2" "speed_map ''slow'' = 1 / 2"
    by (simp_all add: speed_map_def)
  have fast: "look_body 2 27 (- 16) (s\<lparr>current_offset_x := x, current_offset_y := y\<rparr>) =
      s\<lparr>current_offset_x := adjust_offset 2 x 27,
        current_offset_y := adjust_offset 2 y (- 16)\<rparr>" for x y
    by (simp add: look_body_def)
  have "(look_body 2 27 (- 16) ^^ 8) (s\<lparr>current_offset_x := 0, current_offset_y := 0\<rparr>)
      = s\<lparr>current_offset_x := 16, current_offset_y := - 16\<rparr>"
    by (simp add: eval_nat_numeral fast adjust_offset_def)
  then show "(look_body 2 27 (- 16) ^^ 8) s =
      s\<lparr>current_offset_x := 16, current_offset_y := - 16\<rparr>"
    by (simp only: s0)
  have "(look_body 2 27 (- 16) ^^ 13) (s\<lparr>current_offset_x := 0, current_offset_y := 0\<rparr>)
      = s\<lparr>current_offset_x := 26, current_offset_y := - 16\<rparr>"
    by (simp add: eval_nat_numeral fast adjust_offset_def)
  then show "(look_body 2 27 (- 16) ^^ 13) s =
      s\<lparr>current_offset_x := 26, current_offset_y := - 16\<rparr>"
    by (simp only: s0)
  have "(look_body 2 27 (- 16) ^^ 14) (s\<lparr>current_offset_x := 0, current_offset_y := 0\<rparr>)
      = s\<lparr>current_offset_x := 27, current_offset_y := - 16\<rparr>"
    by (simp add: eval_nat_numeral fast adjust_offset_def)
  then show "(look_body 2 27 (- 16) ^^ 14) s =
      s\<lparr>current_offset_x := 27, current_offset_y := - 16\<rparr>"
    by (simp only: s0)
  have slow: "look_body (1 / 2) 0 0 (s\<lparr>current_offset_x := x, current_offset_y := y\<rparr>) =
      s\<lparr>current_offset_x := adjust_offset (1 / 2) x 0,
        current_offset_y := adjust_offset (1 / 2) y 0\<rparr>" for x y
    by (simp add: look_body_def)
  show "look_body (1 / 2) 0 0 (s\<lparr>current_offset_x := 27, current_offset_y := - 16\<rparr>) =
      s\<lparr>current_offset_x := 53 / 2, current_offset_y := - 31 / 2\<rparr>"
    by (simp add: slow adjust_offset_def)
  have "(look_body (1 / 2) 0 0 ^^ 53) (s\<lparr>current_offset_x := 27, current_offset_y := - 16\<rparr>)
      = s\<lparr>current_offset_x := 1 / 2, current_offset_y := 0\<rparr>"
    by (simp add: eval_nat_numeral slow adjust_offset_def)
  then show "(look_body (1 / 2) 0 0 ^^ 53)
      (s\<lparr>current_offset_x := 27, current_offset_y := - 16\<rparr>) = s\<lparr>current_offset_x := 1 / 2\<rparr>"
    by (simp only: sy)
  have "(look_body (1 / 2) 0 0 ^^ 54) (s\<lparr>current_offset_x := 27, current_offset_y := - 16\<rparr>)
      = s\<lparr>current_offset_x := 0, current_offset_y := 0\<rparr>"
    by (simp add: eval_nat_numeral slow adjust_offset_def)
  then show "(look_body (1 / 2) 0 0 ^^ 54)
      (s\<lparr>current_offset_x := 27, current_offset_y := - 16\<rparr>) = s"
    by (simp only: s0)
qed

theorem look_TR_fast_then_C_slow_witness:
  "\<not> current_curious (initial_state default_config) \<and>
   current_offset_x (initial_state default_config) = 0 \<and>
   current_offset_y (initial_state default_config) = 0 \<and>
   look scenario_device default_config ''TR'' ''fast'' (initial_state default_config) =
     Some ((initial_state default_config)\<lparr>current_offset_x := 27, current_offset_y := - 16\<rparr>) \<and>
   look scenario_device default_config ''C'' ''slow''
     ((initial_state default_config)\<lparr>current_offset_x := 27, current_offset_y := - 16\<rparr>) =
     Some (initial_state default_config)"
proof -
  have h: "\<not> current_curious (initial_state default_config)"
    "current_offset_x (initial_state default_config) = 0"
    "current_offset_y (initial_state default_config) = 0"
    by (simp_all add: initial_state_def)
  from look_TR_fast_then_C_slow [OF h] h show ?thesis by blast
qed

text \<open>
  C6. As stated, the claim fails: \<^verbatim>\<open>change_face("happy")\<close> sets the bottom lids to 16,
  half of the open eyes' 32, and \<^verbatim>\<open>close_eyes("both")\<close> then lowers the eye heights to 2
  and leaves the lids at 16.
\<close>

theorem eyelids_exceed_half_eye_counterexample:
  "run scenario_device default_config
     [Change_face (Some ''happy''), Close_eyes (Some ''both'') ''fast'']
     (initial_state default_config) =
   Some ((initial_state default_config)
     \<lparr>current_face := ''happy'', current_closed := Some ''both'',
       eyelid_bottom_left_height := 16, eyelid_bottom_right_height := 16,
       current_eye_height_left := 2, current_eye_height_right := 2\<rparr>) \<and>
   \<not> eyelids_at_most_half_eye ((initial_state default_config)
     \<lparr>current_face := ''happy'', current_closed := Some ''both'',
       eyelid_bottom_left_height := 16, eyelid_bottom_right_height := 16,
       current_eye_height_left := 2, current_eye_height_right := 2\<rparr>)"
proof
  show "run scenario_device default_config
     [Change_face (Some ''happy''), Close_eyes (Some ''both'') ''fast'']
     (initial_state default_config) =
   Some ((initial_state default_config)
     \<lparr>current_face := ''happy'', current_closed := Some ''both'',
       eyelid_bottom_left_height := 16, eyelid_bottom_right_height := 16,
       current_eye_height_left := 2, current_eye_height_right := 2\<rparr>)"
    by (rule happy_then_close_both)
  show "\<not> eyelids_at_most_half_eye ((initial_state default_config)
     \<lparr>current_face := ''happy'', current_closed := Some ''both'',
       eyelid_bottom_left_height := 16, eyelid_bottom_right_height := 16,
       current_eye_height_left := 2, current_eye_height_right := 2\<rparr>)"
    by (simp add: eyelids_at_most_half_eye_def)
qed

text \<open>
  C6, amended. With configured base heights of at least 2, in every state reached from
  the initial state by a sequence of commands, each of the six eyelid heights is at most
  half of the configured base height of the eye it masks.
\<close>

theorem eyelids_at_most_half_base_reachable:
  assumes "run device config cs (initial_state config) = Some s"
    and "2 \<le> left_height config" "2 \<le> right_height config"
  shows "eyelids_at_most_half_base config s"
proof -
  have "in_range (left_height config) (right_height config) s"
    by (rule run_in_range [OF assms(2,3) assms(1) initial_in_range [OF assms(2,3)]])
  then show ?thesis
    by (simp add: in_range_def eyelids_at_most_half_base_def)
qed

theorem eyelids_at_most_half_base_reachable_witness:
  "eyelids_at_most_half_base default_config ((initial_state default_config)
     \<lparr>current_face := ''happy'', current_closed := Some ''both'',
       eyelid_bottom_left_height := 16, eyelid_bottom_right_height := 16,
       current_eye_height_left := 2, current_eye_height_right := 2\<rparr>)"
proof -
  have h: "2 \<le> left_height default_config" "2 \<le> right_height default_config"
    by (simp_all add: default_config_def)
  show ?thesis
    by (rule eyelids_at_most_half_base_reachable [OF happy_then_close_both h])
qed

text \<open>
  C7. As stated, the claim fails: with the right eye closed (\<^verbatim>\<open>current_closed = "right"\<close>,
  right height 2), \<^verbatim>\<open>close_eyes("left", "fast")\<close> returns with
  \<^verbatim>\<open>current_closed = "left"\<close>, not \<^verbatim>\<open>"both"\<close>.
\<close>

theorem close_left_while_right_closed_counterexample:
  "close_eyes scenario_device default_config (Some ''left'') ''fast''
     ((initial_state default_config)
        \<lparr>current_eye_height_right := 2, current_closed := Some ''right''\<rparr>) =
   Some ((initial_state default_config)
        \<lparr>current_eye_height_left := 2, current_eye_height_right := 2,
          current_closed := Some ''left''\<rparr>) \<and>
   Some ''left'' \<noteq> Some ''both''"
  by (simp add: close_eyes_def close_eyes_loop_left movement_speed_pos initial_state_def)

text \<open>
  C7, amended. When \<^verbatim>\<open>close_eyes("left", speed)\<close> is called while
  \<^verbatim>\<open>current_closed\<close> is \<^verbatim>\<open>"right"\<close> and the right height is 2, it returns, at every
  speed, with the left height at 2, the right height still at 2 and
  \<^verbatim>\<open>current_closed = "left"\<close>, the eye that was asked for.
\<close>

theorem close_left_while_right_closed:
  assumes "current_closed s = Some ''right''" "current_eye_height_right s = 2"
  shows "close_eyes device config (Some ''left'') speed s =
     Some (s\<lparr>current_eye_height_left := 2, current_closed := Some ''left''\<rparr>) \<and>
   current_eye_height_right (s\<lparr>current_eye_height_left := 2, current_closed := Some ''left''\<rparr>) = 2"
  using assms by (simp add: close_eyes_def close_eyes_loop_left movement_speed_pos)

theorem close_left_while_right_closed_witness:
  "close_eyes scenario_device default_config (Some ''left'') ''slow''
     ((initial_state default_config)
        \<lparr>current_eye_height_right := 2, current_closed := Some ''right''\<rparr>) =
   Some ((initial_state default_config)
        \<lparr>current_eye_height_left := 2, current_eye_height_right := 2,
          current_closed := Some ''left''\<rparr>)"
  using close_left_while_right_closed [of "(initial_state default_config)
        \<lparr>current_eye_height_right := 2, current_closed := Some ''right''\<rparr>"
      scenario_device default_config "''slow''"]
  by (simp add: initial_state_def)

text \<open>
  C8. As stated, the claim fails in each part about one eye and in the part about none.
  Closing the right eye and then the left leaves \<^verbatim>\<open>current_closed = "left"\<close> with the
  right eye at 2, not at its base (and the mirror image). Closing the right eye and then
  opening the left leaves \<^verbatim>\<open>current_closed = None\<close> with the right eye at 2. With base
  heights 32 and 40, closing and opening both eyes leaves \<^verbatim>\<open>current_closed = "right"\<close>
  with the right eye at 34, not at 2 (and the mirror image with base heights 40 and 32).
\<close>

theorem closed_state_inconsistent_counterexample:
  "run scenario_device default_config
     [Close_eyes (Some ''right'') ''fast'', Close_eyes (Some ''left'') ''fast'']
     (initial_state default_config) =
   Some ((initial_state default_config)
     \<lparr>current_closed := Some ''left'', current_eye_height_left := 2,
       current_eye_height_right := 2\<rparr>) \<and>
   \<not> closed_consistent default_config ((initial_state default_config)
     \<lparr>current_closed := Some ''left'', current_eye_height_left := 2,
       current_eye_height_right := 2\<rparr>) \<and>
   run scenario_device default_config
     [Close_eyes (Some ''right'') ''fast'', Open_eyes (Some ''left'') ''fast'']
     (initial_state default_config) =
   Some ((initial_state default_config)\<lparr>current_eye_height_right := 2\<rparr>) \<and>
   \<not> closed_consistent default_config
     ((initial_state default_config)\<lparr>current_eye_height_right := 2\<rparr>) \<and>
   run scenario_device unequal_config
     [Close_eyes (Some ''both'') ''fast'', Open_eyes (Some ''both'') ''fast'']
     (initial_state unequal_config) =
   Some ((initial_state unequal_config)
     \<lparr>current_closed := Some ''right'', current_eye_height_right := 34\<rparr>) \<and>
   \<not> closed_consistent unequal_config ((initial_state unequal_config)
     \<lparr>current_closed := Some ''right'', current_eye_height_right := 34\<rparr>) \<and>
   run scenario_device default_config
     [Close_eyes (Some ''left'') ''fast'', Close_eyes (Some ''right'') ''fast'']
     (initial_state default_config) =
   Some ((initial_state default_config)
     \<lparr>current_closed := Some ''right'', current_eye_height_left := 2,
       current_eye_height_right := 2\<rparr>) \<and>
   \<not> closed_consistent default_config ((initial_state default_config)
     \<lparr>current_closed := Some ''right'', current_eye_height_left := 2,
       current_eye_height_right := 2\<rparr>) \<and>
   run scenario_device taller_left_config
     [Close_eyes (Some ''both'') ''fast'', Open_eyes (Some ''both'') ''fast'']
     (initial_state taller_left_config) =
   Some ((initial_state taller_left_config)
     \<lparr>current_closed := Some ''left'', current_eye_height_left := 34\<rparr>) \<and>
   \<not> closed_consistent taller_left_config ((initial_state taller_left_config)
     \<lparr>current_closed := Some ''left'', current_eye_height_left := 34\<rparr>)"
proof (intro conjI)
  show "run scenario_device default_config
     [Close_eyes (Some ''left'') ''fast'', Close_eyes (Some ''right'') ''fast'']
     (initial_state default_config) =
   Some ((initial_state default_config)
     \<lparr>current_closed := Some ''right'', current_eye_height_left := 2,
       current_eye_height_right := 2\<rparr>)"
    by (simp add: close_eyes_def close_eyes_loop_left close_eyes_loop_right movement_speed_pos
        initial_state_def)
  show "\<not> closed_consistent default_config ((initial_state default_config)
     \<lparr>current_closed := Some ''right'', current_eye_height_left := 2,
       current_eye_height_right := 2\<rparr>)"
    by (simp add: closed_consistent_def initial_state_def default_config_def)
  show "run scenario_device taller_left_config
     [Close_eyes (Some ''both'') ''fast'', Open_eyes (Some ''both'') ''fast'']
     (initial_state taller_left_config) =
   Some ((initial_state taller_left_config)
     \<lparr>current_closed := Some ''left'', current_eye_height_left := 34\<rparr>)"
    by (simp add: close_both_taller_left open_both_taller_left)
  show "\<not> closed_consistent taller_left_config ((initial_state taller_left_config)
     \<lparr>current_closed := Some ''left'', current_eye_height_left := 34\<rparr>)"
    by (simp add: closed_consistent_def initial_state_def taller_left_config_def)
  show "run scenario_device default_config
     [Close_eyes (Some ''right'') ''fast'', Close_eyes (Some ''left'') ''fast'']
     (initial_state default_config) =
   Some ((initial_state default_config)
     \<lparr>current_closed := Some ''left'', current_eye_height_left := 2,
       current_eye_height_right := 2\<rparr>)"
    by (simp add: close_eyes_def close_eyes_loop_left close_eyes_loop_right movement_speed_pos
        initial_state_def)
  show "\<not> closed_consistent default_config ((initial_state default_config)
     \<lparr>current_closed := Some ''left'', current_eye_height_left := 2,
       current_eye_height_right := 2\<rparr>)"
    by (simp add: closed_consistent_def initial_state_def default_config_def)
  show "run scenario_device default_config
     [Close_eyes (Some ''right'') ''fast'', Open_eyes (Some ''left'') ''fast'']
     (initial_state default_config) =
   Some ((initial_state default_config)\<lparr>current_eye_height_right := 2\<rparr>)"
    by (simp add: close_eyes_def close_eyes_loop_right open_eyes_def not_closed_def
        open_eyes_loop_left movement_speed_pos initial_state_def default_config_def)
  show "\<not> closed_consistent default_config
     ((initial_state default_config)\<lparr>current_eye_height_right := 2\<rparr>)"
    by (simp add: closed_consistent_def initial_state_def default_config_def)
  show "run scenario_device unequal_config
     [Close_eyes (Some ''both'') ''fast'', Open_eyes (Some ''both'') ''fast'']
     (initial_state unequal_config) =
   Some ((initial_state unequal_config)
     \<lparr>current_closed := Some ''right'', current_eye_height_right := 34\<rparr>)"
    by (simp add: close_both_unequal open_both_unequal)
  show "\<not> closed_consistent unequal_config ((initial_state unequal_config)
     \<lparr>current_closed := Some ''right'', current_eye_height_right := 34\<rparr>)"
    by (simp add: closed_consistent_def initial_state_def unequal_config_def)
qed

text \<open>
  C8, amended. In every state reached from the initial state by a sequence of commands,
  \<^verbatim>\<open>current_closed = "both"\<close> implies that both eye heights are at the minimum 2.
\<close>

theorem both_closed_at_minimum_reachable:
  assumes "run device config cs (initial_state config) = Some s"
  shows "both_closed_at_minimum s \<and>
    (current_closed s = Some ''both'' \<longrightarrow>
       current_eye_height_left s = 2 \<and> current_eye_height_right s = 2)"
proof -
  have "both_closed_at_minimum (initial_state config)"
    by (simp add: both_closed_at_minimum_def initial_state_def)
  from run_both_closed [OF assms this] show ?thesis
    by (simp add: both_closed_at_minimum_def)
qed

theorem both_closed_at_minimum_reachable_witness:
  "current_closed ((initial_state default_config)
     \<lparr>current_closed := Some ''both'', current_eye_height_left := 2,
       current_eye_height_right := 2\<rparr>) = Some ''both'' \<and>
   both_closed_at_minimum ((initial_state default_config)
     \<lparr>current_closed := Some ''both'', current_eye_height_left := 2,
       current_eye_height_right := 2\<rparr>)"
  using both_closed_at_minimum_reachable [OF close_both_fast] by simp

text \<open>
  C9. When \<^verbatim>\<open>current_closed\<close> is \<^verbatim>\<open>None\<close>, \<^verbatim>\<open>open_eyes(eye, speed)\<close> returns at once,
  for every eye and speed, and the state it leaves is the state it found, field by field.
\<close>

theorem open_eyes_when_open:
  assumes "current_closed s = None"
  shows "open_eyes device config eye speed s = Some s"
  using assms by (simp add: open_eyes_def not_closed_def)

theorem open_eyes_when_open_witness:
  "current_closed (initial_state default_config) = None \<and>
   open_eyes scenario_device default_config (Some ''both'') ''fast'' (initial_state default_config)
     = Some (initial_state default_config)"
proof -
  have h: "current_closed (initial_state default_config) = None"
    by (simp add: initial_state_def)
  from open_eyes_when_open [OF h] h show ?thesis by simp
qed

text \<open>
  C10. When \<^verbatim>\<open>eye\<close> is none of \<^verbatim>\<open>"left"\<close>, \<^verbatim>\<open>"right"\<close>, \<^verbatim>\<open>"both"\<close> (the default
  \<^verbatim>\<open>None\<close> included), a pass of either loop changes nothing and does not break, and
  \<^verbatim>\<open>close_eyes\<close> never returns; \<^verbatim>\<open>open_eyes\<close> never returns when \<^verbatim>\<open>current_closed\<close> is
  one of the three names, and returns at once when it is \<^verbatim>\<open>None\<close>. For the three
  known eyes both commands return.
\<close>

theorem unknown_eye_never_ends:
  "(eye \<noteq> Some ''left'' \<and> eye \<noteq> Some ''right'' \<and> eye \<noteq> Some ''both'' \<longrightarrow>
      close_eyes_body eye sp s = (False, s) \<and>
      open_eyes_body lo ro eye sp s = (False, s) \<and>
      close_eyes device config eye speed s = None \<and>
      (current_closed s = Some ''both'' \<or> current_closed s = Some ''left'' \<or>
       current_closed s = Some ''right'' \<longrightarrow> open_eyes device config eye speed s = None) \<and>
      (current_closed s = None \<longrightarrow> open_eyes device config eye speed s = Some s)) \<and>
   (eye = Some ''left'' \<or> eye = Some ''right'' \<or> eye = Some ''both'' \<longrightarrow>
      (\<exists>s'. close_eyes device config eye speed s = Some s') \<and>
      (\<exists>s'. open_eyes device config eye speed s = Some s'))"
proof (intro conjI impI)
  assume "eye \<noteq> Some ''left'' \<and> eye \<noteq> Some ''right'' \<and> eye \<noteq> Some ''both''"
  then have other: "\<not> in_both_left eye" "\<not> in_both_right eye"
    by (simp_all add: in_both_left_def in_both_right_def)
  show "close_eyes_body eye sp s = (False, s)"
    by (rule close_eyes_body_other [OF other])
  show "open_eyes_body lo ro eye sp s = (False, s)"
    by (rule open_eyes_body_other [OF other])
  show "close_eyes device config eye speed s = None"
    by (simp add: close_eyes_def close_eyes_loop_other [OF other])
  show "open_eyes device config eye speed s = None"
    if "current_closed s = Some ''both'' \<or> current_closed s = Some ''left'' \<or>
        current_closed s = Some ''right''"
    using that by (auto simp: open_eyes_def not_closed_def open_eyes_loop_other [OF other])
  show "open_eyes device config eye speed s = Some s" if "current_closed s = None"
    using that by (simp add: open_eyes_def not_closed_def)
next
  assume k: "eye = Some ''left'' \<or> eye = Some ''right'' \<or> eye = Some ''both''"
  show "\<exists>s'. close_eyes device config eye speed s = Some s'"
    by (rule close_eyes_ends [OF k])
  show "\<exists>s'. open_eyes device config eye speed s = Some s'"
    by (rule open_eyes_ends [OF k])
qed

theorem unknown_eye_never_ends_witness:
  "close_eyes_body None 2 (initial_state default_config) = (False, initial_state default_config) \<and>
   close_eyes scenario_device default_config None ''medium'' (initial_state default_config) = None \<and>
   open_eyes scenario_device default_config None ''medium''
     ((initial_state default_config)\<lparr>current_closed := Some ''both''\<rparr>) = None \<and>
   (\<exists>s'. close_eyes scenario_device default_config (Some ''left'') ''medium''
      (initial_state default_config) = Some s')"
  using unknown_eye_never_ends [of None 2 "initial_state default_config" 32 32
      scenario_device default_config "''medium''"]
    unknown_eye_never_ends [of None 2
      "(initial_state default_config)\<lparr>current_closed := Some ''both''\<rparr>" 32 32
      scenario_device default_config "''medium''"]
    unknown_eye_never_ends [of "Some ''left''" 2 "initial_state default_config" 32 32
      scenario_device default_config "''medium''"]
  by simp

end
